theory Spec2Isabelle
  imports Complex_Main
begin

section \<open>The payment-check route: a shallow embedding of \<^verbatim>\<open>route.ts\<close>\<close>

text \<open>
  The repository is one file, \<^verbatim>\<open>src/my-app/app/api/check-payment/route.ts\<close>, holding
  one function, the handler \<^verbatim>\<open>GET\<close>. The embedding follows it block by block; the line
  numbers in the comments are those of that file.

  What the handler takes from outside is made an explicit input:
  \<^item> the two query parameters (\<open>request\<close>),
  \<^item> the environment variable, the explorer's answers and the clock (\<open>env\<close>),
  \<^item> the JavaScript built-ins it calls (\<open>runtime\<close>): \<^verbatim>\<open>JSON.parse\<close>,
    \<^verbatim>\<open>Number.parseInt\<close>, \<^verbatim>\<open>Number.parseFloat\<close>, \<^verbatim>\<open>Math.pow\<close>, \<^verbatim>\<open>Math.abs\<close>, the
    arithmetic of numbers, \<^verbatim>\<open>toISOString\<close> and \<^verbatim>\<open>toLowerCase\<close>.
  JavaScript numbers are IEEE doubles. No theorem below fixes their arithmetic: the type
  of numbers is a type variable \<open>'n\<close> and every operation on it is a field of the
  runtime, so a theorem that holds for every runtime holds for the doubles of the engine
  as well. A reference runtime that computes with exact rationals (\<open>ref_rt\<close>) is used
  at concrete inputs only, chosen so that the engine computes the same values: every
  number parsed, every product and every quotient there is a double (\<open>10^18\<close> and
  \<open>2.5 * 10^18\<close> included), and the one literal that is not, \<^verbatim>\<open>0.001\<close>, is only
  compared with 0.

  What the handler does to the outside is made an explicit output: the HTTP status, the
  object handed to \<^verbatim>\<open>NextResponse.json\<close> (as built, before it is serialised), and the
  list of outbound calls in the order they were issued. The two timers are part of the
  network's answer: a call that is aborted is a call that rejects. Console output is the
  one effect left out.
\<close>

subsection \<open>Strings\<close>

text \<open>
  A string is a list of code units. \<^verbatim>\<open>s.includes(p)\<close>, \<^verbatim>\<open>s.replace(p, r)\<close> with a string
  pattern (which replaces the first occurrence only; none of the replacement texts of the
  handler holds a \<^verbatim>\<open>$\<close>) and \<^verbatim>\<open>s.split(sep)[0]\<close> with a non-empty separator.
\<close>

fun startsWith :: "string \<Rightarrow> string \<Rightarrow> bool" where
  "startsWith s [] = True"
| "startsWith [] (p # ps) = False"
| "startsWith (c # cs) (p # ps) = (c = p \<and> startsWith cs ps)"

fun str_includes :: "string \<Rightarrow> string \<Rightarrow> bool" where
  "str_includes [] p = (p = [])"
| "str_includes (c # cs) p = (startsWith (c # cs) p \<or> str_includes cs p)"

fun str_replace :: "string \<Rightarrow> string \<Rightarrow> string \<Rightarrow> string" where
  "str_replace [] p r = (if p = [] then r else [])"
| "str_replace (c # cs) p r =
     (if startsWith (c # cs) p then r @ drop (length p) (c # cs) else c # str_replace cs p r)"

fun split_head :: "string \<Rightarrow> string \<Rightarrow> string" where
  "split_head [] sep = []"
| "split_head (c # cs) sep = (if startsWith (c # cs) sep then [] else c # split_head cs sep)"

text \<open>A number in a template literal: the status code of a response, in decimal.\<close>

fun decimal :: "nat \<Rightarrow> string" where
  "decimal n = (if n < 10 then [''0123456789'' ! n]
                else decimal (n div 10) @ [''0123456789'' ! (n mod 10)])"

subsection \<open>Values, thrown values and the runtime\<close>

text \<open>
  A value as \<^verbatim>\<open>JSON.parse\<close> yields it, and as the handler puts it into its reports.
  An object is the list of its own properties; \<^verbatim>\<open>JSON.parse\<close> lists every key once.
\<close>

datatype 'n jsval =
    JUndefined
  | JNull
  | JBool bool
  | JNum 'n
  | JStr string
  | JArr "'n jsval list"
  | JObj "(string \<times> 'n jsval) list"

text \<open>
  What a \<^verbatim>\<open>catch\<close> clause can receive: an instance of \<^verbatim>\<open>Error\<close> with its message and
  its stack text, or some other value (\<^verbatim>\<open>instanceof Error\<close> is false).
\<close>

datatype thrown = Error string string | NonError

record 'n runtime =
  JSON_parse :: "string \<Rightarrow> thrown + 'n jsval"
  Number_parseInt :: "'n jsval \<Rightarrow> thrown + 'n"
  Number_parseFloat :: "string \<Rightarrow> 'n"
  Math_pow :: "'n \<Rightarrow> 'n \<Rightarrow> 'n"
  Math_abs :: "'n \<Rightarrow> 'n"
  num_div :: "'n \<Rightarrow> 'n \<Rightarrow> 'n"
  num_mul :: "'n \<Rightarrow> 'n \<Rightarrow> 'n"
  num_sub :: "'n \<Rightarrow> 'n \<Rightarrow> 'n"
  num_add :: "'n \<Rightarrow> 'n \<Rightarrow> 'n"
  num_lt :: "'n \<Rightarrow> 'n \<Rightarrow> bool"
  num_lit :: "rat \<Rightarrow> 'n"
  num_falsy :: "'n \<Rightarrow> bool"
  Date_time :: "'n \<Rightarrow> int option"
  toISOString :: "int \<Rightarrow> string"
  toLowerCase :: "string \<Rightarrow> string"
  stackTrace :: "string \<Rightarrow> string"

text \<open>
  \<^item> \<open>Number_parseInt\<close> takes any value: the built-in first converts its argument to a
    string, which raises a \<^verbatim>\<open>TypeError\<close> for an object that has no usable \<^verbatim>\<open>toString\<close>.
  \<^item> \<open>num_lit q\<close> is the number a numeric literal of the source denotes
    (\<^verbatim>\<open>0\<close>, \<^verbatim>\<open>10\<close>, \<^verbatim>\<open>18\<close>, \<^verbatim>\<open>1000\<close>, \<^verbatim>\<open>0.001\<close>).
  \<^item> \<open>num_falsy n\<close> holds for the numbers that count as false (zero and \<^verbatim>\<open>NaN\<close>).
  \<^item> \<open>Date_time x\<close> is \<^verbatim>\<open>new Date(x).getTime()\<close>: the time value in milliseconds, or
    \<open>None\<close> for an invalid date (\<^verbatim>\<open>NaN\<close>).
  \<^item> \<open>stackTrace msg\<close> is the stack text the engine attaches to an error it raises.
\<close>

definition bindE :: "'e + 'a \<Rightarrow> ('a \<Rightarrow> 'e + 'b) \<Rightarrow> 'e + 'b" where
  "bindE m f = (case m of Inl e \<Rightarrow> Inl e | Inr x \<Rightarrow> f x)"

fun mapE :: "('a \<Rightarrow> 'e + 'b) \<Rightarrow> 'a list \<Rightarrow> 'e + 'b list" where
  "mapE f [] = Inr []"
| "mapE f (x # xs) = bindE (f x) (\<lambda>y. bindE (mapE f xs) (\<lambda>ys. Inr (y # ys)))"

definition TypeError :: "'n runtime \<Rightarrow> string \<Rightarrow> thrown" where
  "TypeError rt msg = Error msg (stackTrace rt msg)"

definition RangeError :: "'n runtime \<Rightarrow> string \<Rightarrow> thrown" where
  "RangeError rt msg = Error msg (stackTrace rt msg)"

text \<open>
  \<^verbatim>\<open>v.k\<close> for the property names the handler reads (\<^verbatim>\<open>status\<close>, \<^verbatim>\<open>message\<close>, \<^verbatim>\<open>result\<close>,
  \<^verbatim>\<open>hash\<close>, \<^verbatim>\<open>from\<close>, \<^verbatim>\<open>to\<close>, \<^verbatim>\<open>value\<close>, \<^verbatim>\<open>tokenDecimal\<close>, \<^verbatim>\<open>timeStamp\<close>,
  \<^verbatim>\<open>confirmations\<close>, \<^verbatim>\<open>blockNumber\<close>): none of them is a property that strings, numbers,
  booleans or arrays inherit, so reading one from such a value gives \<^verbatim>\<open>undefined\<close>.
  Reading a property of \<^verbatim>\<open>undefined\<close> or \<^verbatim>\<open>null\<close> raises a \<^verbatim>\<open>TypeError\<close>.
\<close>

fun prop_of :: "'n jsval \<Rightarrow> string \<Rightarrow> 'n jsval" where
  "prop_of (JObj kvs) k = (case map_of kvs k of Some v \<Rightarrow> v | None \<Rightarrow> JUndefined)"
| "prop_of v k = JUndefined"

definition quoted :: "string \<Rightarrow> string" where
  "quoted k = [CHR 0x27] @ k @ [CHR 0x27]"

definition get :: "'n runtime \<Rightarrow> 'n jsval \<Rightarrow> string \<Rightarrow> thrown + 'n jsval" where
  "get rt v k =
     (case v of
        JUndefined \<Rightarrow>
          Inl (TypeError rt (''Cannot read properties of undefined (reading '' @ quoted k @ '')''))
      | JNull \<Rightarrow>
          Inl (TypeError rt (''Cannot read properties of null (reading '' @ quoted k @ '')''))
      | _ \<Rightarrow> Inr (prop_of v k))"

fun truthy :: "'n runtime \<Rightarrow> 'n jsval \<Rightarrow> bool" where
  "truthy rt JUndefined = False"
| "truthy rt JNull = False"
| "truthy rt (JBool b) = b"
| "truthy rt (JNum n) = (\<not> num_falsy rt n)"
| "truthy rt (JStr s) = (s \<noteq> [])"
| "truthy rt (JArr xs) = True"
| "truthy rt (JObj kvs) = True"

text \<open>\<^verbatim>\<open>a || b\<close> on values.\<close>

definition or_else :: "'n runtime \<Rightarrow> 'n jsval \<Rightarrow> 'n jsval \<Rightarrow> 'n jsval" where
  "or_else rt a b = (if truthy rt a then a else b)"

fun isArray :: "'n jsval \<Rightarrow> bool" where
  "isArray (JArr xs) = True"
| "isArray v = False"

subsection \<open>The outside world\<close>

text \<open>
  An outbound call is its URL and its headers. \<^verbatim>\<open>fetch\<close> either rejects (transport
  failure, or the abort that the 8 and 5 second timers trigger) or resolves to a response
  with a status code, a status text and a body; reading the body can fail as well.
  The network is a function of the call: within one invocation no URL is requested twice
  (the two endpoints differ in their host, the balance URL in its action).
\<close>

type_synonym outbound = "string \<times> (string \<times> string) list"

datatype body = BodyFailed thrown | BodyText string

datatype fetch_outcome = Rejected thrown | Response nat string body

text \<open>\<^verbatim>\<open>response.ok\<close>: the status is in the range 200 to 299.\<close>

definition ok :: "nat \<Rightarrow> bool" where
  "ok st = (200 \<le> st \<and> st \<le> 299)"

text \<open>
  \<open>clock k\<close> is what \<^verbatim>\<open>Date.now()\<close> returns while transaction number \<open>k\<close> of the
  upstream list is processed; \<open>reportTime\<close> is the instant \<^verbatim>\<open>new Date()\<close> gives when a
  report is built.
\<close>

record env =
  BSCSCAN_API_KEY :: "string option"
  network :: "outbound \<Rightarrow> fetch_outcome"
  clock :: "nat \<Rightarrow> int"
  reportTime :: int

text \<open>\<^verbatim>\<open>searchParams.get\<close> gives \<^verbatim>\<open>null\<close> for a parameter that is absent.\<close>

record request =
  searchParams_address :: "string option"
  searchParams_amount :: "string option"

record 'n response =
  http_status :: nat
  json_body :: "'n jsval"

subsection \<open>Lines 9 to 22: the parameters\<close>

definition nullable :: "string option \<Rightarrow> 'n jsval" where
  "nullable s = (case s of None \<Rightarrow> JNull | Some t \<Rightarrow> JStr t)"

definition missingParameters :: "string option \<Rightarrow> string option \<Rightarrow> 'n response" where
  "missingParameters address expectedAmount =
     \<lparr>http_status = 400,
      json_body = JObj
        [(''error'', JStr ''Missing parameters''),
         (''confirmed'', JBool False),
         (''debugInfo'', JObj
            [(''error'', JStr ''Missing address or amount parameter''),
             (''address'', nullable address),
             (''expectedAmount'', nullable expectedAmount)])]\<rparr>"

subsection \<open>Lines 24 to 96: the endpoints\<close>

definition defaultApiKey :: string where
  "defaultApiKey = ''YMURRBM3WND7ZIJM8S1C5HEQXQK6W4S45B''"

definition usdtContract :: string where
  "usdtContract = ''0x55d398326f99059fF775485246999027B3197955''"

definition etherscanApiKey :: "env \<Rightarrow> string" where
  "etherscanApiKey env =
     (case BSCSCAN_API_KEY env of
        None \<Rightarrow> defaultApiKey
      | Some k \<Rightarrow> if k \<noteq> [] then k else defaultApiKey)"

definition apiEndpoints :: "string \<Rightarrow> string \<Rightarrow> string list" where
  "apiEndpoints address apiKey =
     [''https://api.bscscan.com/api?module=account&action=tokentx&contractaddress=''
        @ usdtContract @ ''&address='' @ address
        @ ''&page=1&offset=20&sort=desc&apikey='' @ apiKey,
      ''https://api-bsc.etherscan.io/api?module=account&action=tokentx&contractaddress=''
        @ usdtContract @ ''&address='' @ address
        @ ''&page=1&offset=20&sort=desc&apikey='' @ apiKey]"

definition tokentxHeaders :: "(string \<times> string) list" where
  "tokentxHeaders =
     [(''User-Agent'', ''Mozilla/5.0 (compatible; PaymentBot/1.0)''),
      (''Accept'', ''application/json''),
      (''Cache-Control'', ''no-cache'')]"

text \<open>Lines 84 to 95: what the \<^verbatim>\<open>catch\<close> of one iteration records.\<close>

definition fetchErrorText :: "thrown \<Rightarrow> string" where
  "fetchErrorText fetchError =
     (case fetchError of
        Error msg stk \<Rightarrow>
          if str_includes msg ''fetch failed'' \<or> str_includes msg ''ENOTFOUND''
          then ''Network connectivity issue in serverless environment''
          else msg
      | NonError \<Rightarrow> ''Unknown fetch error'')"

text \<open>
  One iteration of the loop (lines 46 to 95): the body parsed (the loop breaks), or the
  text that \<^verbatim>\<open>lastError\<close> is set to (the loop continues).
\<close>

datatype 'n attempt = Parsed "'n jsval" | Failed string

definition tryEndpoint :: "'n runtime \<Rightarrow> (outbound \<Rightarrow> fetch_outcome) \<Rightarrow> string \<Rightarrow> 'n attempt" where
  "tryEndpoint rt nt apiUrl =
     (case nt (apiUrl, tokentxHeaders) of
        Rejected fetchError \<Rightarrow> Failed (fetchErrorText fetchError)
      | Response st stText bd \<Rightarrow>
          if ok st then
            (case bd of
               BodyFailed fetchError \<Rightarrow> Failed (fetchErrorText fetchError)
             | BodyText responseText \<Rightarrow>
                 (case JSON_parse rt responseText of
                    Inr parsed \<Rightarrow> Parsed parsed
                  | Inl parseError \<Rightarrow>
                      Failed (''JSON parse error: '' @
                        (case parseError of Error msg stk \<Rightarrow> msg | NonError \<Rightarrow> ''Unknown''))))
          else Failed (''HTTP '' @ decimal st @ '': '' @ stText))"

text \<open>
  The loop (lines 40 to 96). Its state is \<^verbatim>\<open>data\<close>, \<^verbatim>\<open>workingEndpoint\<close> and
  \<^verbatim>\<open>lastError\<close>, all \<^verbatim>\<open>null\<close> at the start; the second component is the calls issued.
\<close>

fun tryEndpoints ::
  "'n runtime \<Rightarrow> (outbound \<Rightarrow> fetch_outcome) \<Rightarrow> string list \<Rightarrow> string option
     \<Rightarrow> ('n jsval \<times> string option \<times> string option) \<times> outbound list" where
  "tryEndpoints rt nt [] lastError = ((JNull, None, lastError), [])"
| "tryEndpoints rt nt (apiUrl # rest) lastError =
     (case tryEndpoint rt nt apiUrl of
        Parsed parsed \<Rightarrow> ((parsed, Some apiUrl, lastError), [(apiUrl, tokentxHeaders)])
      | Failed err \<Rightarrow>
          (case tryEndpoints rt nt rest (Some err) of
             (state, calls) \<Rightarrow> (state, (apiUrl, tokentxHeaders) # calls)))"

subsection \<open>Lines 99 to 128: manual verification mode\<close>

definition manualReport ::
  "'n runtime \<Rightarrow> env \<Rightarrow> string \<Rightarrow> string \<Rightarrow> string option \<Rightarrow> 'n jsval" where
  "manualReport rt env address apiKey lastError =
     JObj
       [(''confirmed'', JBool False),
        (''balance'', JNum (num_lit rt 0)),
        (''transactions'', JArr []),
        (''manualMode'', JBool True),
        (''apiStatus'', JObj
           [(''status'', JStr ''0''),
            (''message'', JStr (''All API endpoints failed. Last error: '' @
               (case lastError of None \<Rightarrow> ''null'' | Some err \<Rightarrow> err))),
            (''result'', JStr ''Manual verification required'')]),
        (''debugInfo'', JObj
           [(''error'', JStr ''All API endpoints failed''),
            (''lastError'', nullable lastError),
            (''testedEndpoints'',
               JArr (map (\<lambda>url. JStr (str_replace url apiKey ''***'')) (apiEndpoints address apiKey))),
            (''serverlessIssue'', JBool True),
            (''manualVerificationUrl'',
               JStr (''https://bscscan.com/token/'' @ usdtContract @ ''?a='' @ address)),
            (''instructions'', JArr
               [JStr ''1. Visit BSCScan manually using the link above'',
                JStr ''2. Look for recent USDT transfers to your address'',
                JStr ''3. Copy the transaction hash from BSCScan'',
                JStr ''4. Use manual verification in the app'']),
            (''timestamp'', JStr (toISOString rt (reportTime env))),
            (''environment'', JStr ''Vercel Serverless'')])]"

subsection \<open>Lines 132 to 177: the transactions\<close>

text \<open>Line 147 (and line 219): the amount of a transaction in whole tokens.\<close>

definition txAmount :: "'n runtime \<Rightarrow> 'n jsval \<Rightarrow> thrown + 'n" where
  "txAmount rt tx =
     bindE (get rt tx ''value'') (\<lambda>v.
     bindE (Number_parseInt rt v) (\<lambda>units.
     bindE (get rt tx ''tokenDecimal'') (\<lambda>d.
     bindE (Number_parseInt rt d) (\<lambda>decimals.
     Inr (num_div rt units (Math_pow rt (num_lit rt 10) decimals))))))"

text \<open>Line 148 (and line 220): the time value of the transaction's date.\<close>

definition txTime :: "'n runtime \<Rightarrow> 'n jsval \<Rightarrow> thrown + int option" where
  "txTime rt tx =
     bindE (get rt tx ''timeStamp'') (\<lambda>ts.
     bindE (Number_parseInt rt ts) (\<lambda>seconds.
     Inr (Date_time rt (num_mul rt seconds (num_lit rt 1000)))))"

text \<open>
  Line 149, \<^verbatim>\<open>Date.now() - txTime.getTime() < 3600000\<close>. Both operands are whole numbers
  of milliseconds of magnitude at most \<open>8.64 * 10^15\<close>, or the second is \<^verbatim>\<open>NaN\<close> and the
  comparison is false. The difference of two such doubles is rounded, but rounding is
  monotone and \<open>3600000\<close> is a double, so the comparison on integers gives the same
  truth value.
\<close>

definition isRecent :: "int \<Rightarrow> int option \<Rightarrow> bool" where
  "isRecent now time = (case time of None \<Rightarrow> False | Some t \<Rightarrow> now - t < 3600000)"

text \<open>Line 150: \<^verbatim>\<open>tx.to.toLowerCase() === address.toLowerCase()\<close>.\<close>

definition toLowerCase_of :: "'n runtime \<Rightarrow> 'n jsval \<Rightarrow> thrown + string" where
  "toLowerCase_of rt v =
     (case v of
        JStr s \<Rightarrow> Inr (toLowerCase rt s)
      | JUndefined \<Rightarrow>
          Inl (TypeError rt
            (''Cannot read properties of undefined (reading '' @ quoted ''toLowerCase'' @ '')''))
      | JNull \<Rightarrow>
          Inl (TypeError rt
            (''Cannot read properties of null (reading '' @ quoted ''toLowerCase'' @ '')''))
      | _ \<Rightarrow> Inl (TypeError rt ''tx.to.toLowerCase is not a function''))"

definition isToAddress :: "'n runtime \<Rightarrow> string \<Rightarrow> 'n jsval \<Rightarrow> thrown + bool" where
  "isToAddress rt address tx =
     bindE (get rt tx ''to'') (\<lambda>t.
     bindE (toLowerCase_of rt t) (\<lambda>lower.
     Inr (lower = toLowerCase rt address)))"

text \<open>Line 151.\<close>

definition isExpectedAmount :: "'n runtime \<Rightarrow> string \<Rightarrow> 'n \<Rightarrow> bool" where
  "isExpectedAmount rt expectedAmount amount =
     num_lt rt (Math_abs rt (num_sub rt amount (Number_parseFloat rt expectedAmount)))
       (num_lit rt (1 / 1000))"

text \<open>\<^verbatim>\<open>txTime.toISOString()\<close> raises a \<^verbatim>\<open>RangeError\<close> on an invalid date.\<close>

definition Date_toISOString :: "'n runtime \<Rightarrow> int option \<Rightarrow> thrown + string" where
  "Date_toISOString rt time =
     (case time of
        None \<Rightarrow> Inl (RangeError rt ''Invalid time value'')
      | Some t \<Rightarrow> Inr (toISOString rt t))"

text \<open>The object that the callback of lines 146 to 165 returns.\<close>

record 'n processedTx =
  tx_hash :: "'n jsval"
  tx_from :: "'n jsval"
  tx_to :: "'n jsval"
  tx_value :: 'n
  tx_timestamp :: string
  tx_confirmations :: "'n jsval"
  tx_isRecent :: bool
  tx_isToAddress :: bool
  tx_isExpectedAmount :: bool
  tx_blockNumber :: "'n jsval"

definition processTx ::
  "'n runtime \<Rightarrow> string \<Rightarrow> string \<Rightarrow> int \<Rightarrow> 'n jsval \<Rightarrow> thrown + 'n processedTx" where
  "processTx rt address expectedAmount now tx =
     bindE (txAmount rt tx) (\<lambda>amount.
     bindE (txTime rt tx) (\<lambda>time.
     bindE (isToAddress rt address tx) (\<lambda>toAddress.
     bindE (get rt tx ''hash'') (\<lambda>h.
     bindE (get rt tx ''from'') (\<lambda>f.
     bindE (get rt tx ''to'') (\<lambda>t.
     bindE (Date_toISOString rt time) (\<lambda>iso.
     bindE (get rt tx ''confirmations'') (\<lambda>c.
     bindE (get rt tx ''blockNumber'') (\<lambda>b.
     Inr \<lparr>tx_hash = h, tx_from = f, tx_to = t, tx_value = amount, tx_timestamp = iso,
          tx_confirmations = c,
          tx_isRecent = isRecent now time,
          tx_isToAddress = toAddress,
          tx_isExpectedAmount = isExpectedAmount rt expectedAmount amount,
          tx_blockNumber = b\<rparr>)))))))))"

text \<open>
  \<^verbatim>\<open>data.result.map(...)\<close>: the callback runs on the elements in order, and the first one
  that raises ends the map. Element \<open>k\<close> reads the clock at \<open>clk (start + k)\<close>.
\<close>

definition processTxs ::
  "'n runtime \<Rightarrow> string \<Rightarrow> string \<Rightarrow> (nat \<Rightarrow> int) \<Rightarrow> nat \<Rightarrow> 'n jsval list
     \<Rightarrow> thrown + 'n processedTx list" where
  "processTxs rt address expectedAmount clk start txs =
     mapE (\<lambda>(k, tx). processTx rt address expectedAmount (clk k) tx) (enumerate start txs)"

fun elements :: "'n jsval \<Rightarrow> 'n jsval list" where
  "elements (JArr xs) = xs"
| "elements v = []"

text \<open>What lines 132 to 177 leave in the four local variables.\<close>

record 'n analysis =
  confirmed :: bool
  matchingTransactions :: "'n processedTx list"
  balance :: 'n
  apiStatus :: "'n jsval"

definition analyse ::
  "'n runtime \<Rightarrow> (nat \<Rightarrow> int) \<Rightarrow> string \<Rightarrow> string \<Rightarrow> 'n jsval \<Rightarrow> thrown + 'n analysis" where
  "analyse rt clk address expectedAmount parsed =
     bindE (get rt parsed ''status'') (\<lambda>status.
     bindE (get rt parsed ''message'') (\<lambda>msg.
     bindE (get rt parsed ''result'') (\<lambda>result.
     let api = JObj
           [(''status'', or_else rt status (JStr ''0'')),
            (''message'', or_else rt msg (JStr ''Unknown error'')),
            (''result'', or_else rt result JNull)]
     in
       if status = JStr ''1'' \<and> truthy rt result \<and> isArray result then
         bindE (processTxs rt address expectedAmount clk 0 (elements result)) (\<lambda>processedTxs.
         let matching =
               filter (\<lambda>p. tx_isRecent p \<and> tx_isToAddress p \<and> tx_isExpectedAmount p) processedTxs
         in Inr \<lparr>confirmed = (length matching > 0),
                 matchingTransactions = matching,
                 balance = foldl (\<lambda>sum p. num_add rt sum (tx_value p)) (num_lit rt 0)
                             (filter tx_isToAddress processedTxs),
                 apiStatus = api\<rparr>)
       else
         Inr \<lparr>confirmed = False, matchingTransactions = [], balance = num_lit rt 0,
              apiStatus = api\<rparr>)))"

subsection \<open>Lines 180 to 209: the token balance\<close>

definition balanceUrl :: "string \<Rightarrow> string" where
  "balanceUrl workingEndpoint =
     split_head (str_replace workingEndpoint ''tokentx'' ''tokenbalance'') ''&page=''
       @ ''&tag=latest''"

definition balanceHeaders :: "(string \<times> string) list" where
  "balanceHeaders =
     [(''User-Agent'', ''Mozilla/5.0 (compatible; PaymentBot/1.0)''),
      (''Accept'', ''application/json'')]"

text \<open>
  The \<^verbatim>\<open>try\<close> block of lines 181 to 205: the new balance, \<open>None\<close> when the block ends
  without assigning one, or what it raises.
\<close>

definition fetchBalance ::
  "'n runtime \<Rightarrow> (outbound \<Rightarrow> fetch_outcome) \<Rightarrow> string \<Rightarrow> thrown + 'n option" where
  "fetchBalance rt nt workingEndpoint =
     (case nt (balanceUrl workingEndpoint, balanceHeaders) of
        Rejected err \<Rightarrow> Inl err
      | Response st stText bd \<Rightarrow>
          if ok st then
            (case bd of
               BodyFailed err \<Rightarrow> Inl err
             | BodyText responseText \<Rightarrow>
                 bindE (JSON_parse rt responseText) (\<lambda>balanceData.
                 bindE (get rt balanceData ''status'') (\<lambda>status.
                 if status = JStr ''1'' then
                   bindE (get rt balanceData ''result'') (\<lambda>result.
                   bindE (Number_parseInt rt (or_else rt result (JStr ''0''))) (\<lambda>balanceWei.
                   Inr (Some (num_div rt balanceWei
                                (Math_pow rt (num_lit rt 10) (num_lit rt 18))))))
                 else Inr None)))
          else Inr None)"

text \<open>
  Lines 180 to 209: the \<^verbatim>\<open>catch\<close> of line 206 only logs, so whatever the block raises
  leaves the balance as it was.
\<close>

definition refineBalance ::
  "'n runtime \<Rightarrow> (outbound \<Rightarrow> fetch_outcome) \<Rightarrow> string option \<Rightarrow> 'n \<Rightarrow> 'n \<times> outbound list" where
  "refineBalance rt nt workingEndpoint transferBalance =
     (case workingEndpoint of
        None \<Rightarrow> (transferBalance, [])
      | Some url \<Rightarrow>
          ((case fetchBalance rt nt url of
              Inr (Some fresh) \<Rightarrow> fresh
            | Inr None \<Rightarrow> transferBalance
            | Inl balanceError \<Rightarrow> transferBalance),
           [(balanceUrl url, balanceHeaders)]))"

subsection \<open>Lines 211 to 239: the report\<close>

text \<open>The callback of lines 215 to 222.\<close>

definition shapeTx :: "'n runtime \<Rightarrow> 'n jsval \<Rightarrow> thrown + 'n jsval" where
  "shapeTx rt tx =
     bindE (get rt tx ''hash'') (\<lambda>h.
     bindE (get rt tx ''from'') (\<lambda>f.
     bindE (get rt tx ''to'') (\<lambda>t.
     bindE (txAmount rt tx) (\<lambda>amount.
     bindE (txTime rt tx) (\<lambda>time.
     bindE (Date_toISOString rt time) (\<lambda>iso.
     bindE (get rt tx ''confirmations'') (\<lambda>c.
     Inr (JObj
       [(''hash'', h), (''from'', f), (''to'', t), (''value'', JNum amount),
        (''timestamp'', JStr iso), (''confirmations'', c)]))))))))"

text \<open>
  \<^verbatim>\<open>data.result.slice(0, 10).map(...)\<close> on a result that is truthy. An array has both
  methods. A string has \<^verbatim>\<open>slice\<close> but its slice, a string, has no \<^verbatim>\<open>map\<close>; any other
  truthy value has no \<^verbatim>\<open>slice\<close> that can be called. Calling what is not a function
  raises a \<^verbatim>\<open>TypeError\<close>.
\<close>

definition sliceMap :: "'n runtime \<Rightarrow> 'n jsval \<Rightarrow> thrown + 'n jsval list" where
  "sliceMap rt result =
     (case result of
        JArr txs \<Rightarrow> mapE (shapeTx rt) (take 10 txs)
      | JStr s \<Rightarrow> Inl (TypeError rt ''data.result.slice(...).map is not a function'')
      | _ \<Rightarrow> Inl (TypeError rt ''data.result.slice is not a function''))"

definition processedTx_object :: "'n processedTx \<Rightarrow> 'n jsval" where
  "processedTx_object p =
     JObj
       [(''hash'', tx_hash p), (''from'', tx_from p), (''to'', tx_to p),
        (''value'', JNum (tx_value p)), (''timestamp'', JStr (tx_timestamp p)),
        (''confirmations'', tx_confirmations p),
        (''isRecent'', JBool (tx_isRecent p)),
        (''isToAddress'', JBool (tx_isToAddress p)),
        (''isExpectedAmount'', JBool (tx_isExpectedAmount p)),
        (''blockNumber'', tx_blockNumber p)]"

definition buildResult ::
  "'n runtime \<Rightarrow> env \<Rightarrow> string \<Rightarrow> string \<Rightarrow> string \<Rightarrow> 'n jsval \<Rightarrow> string option
     \<Rightarrow> 'n analysis \<Rightarrow> 'n \<Rightarrow> thrown + 'n jsval" where
  "buildResult rt env address expectedAmount apiKey parsed workingEndpoint a finalBalance =
     bindE (get rt parsed ''result'') (\<lambda>result.
     bindE (if truthy rt result then sliceMap rt result else Inr []) (\<lambda>transactions.
     Inr (JObj
       [(''confirmed'', JBool (confirmed a)),
        (''balance'', JNum finalBalance),
        (''transactions'', JArr transactions),
        (''apiStatus'', apiStatus a),
        (''debugInfo'', JObj
           [(''workingEndpoint'',
               (case workingEndpoint of
                  None \<Rightarrow> JUndefined
                | Some url \<Rightarrow> JStr (str_replace url apiKey ''***''))),
            (''requestTime'', JStr (toISOString rt (reportTime env))),
            (''matchingTransactions'', JArr (map processedTx_object (matchingTransactions a))),
            (''expectedAmount'', JNum (Number_parseFloat rt expectedAmount)),
            (''address'', JStr address),
            (''usdtContract'', JStr usdtContract),
            (''network'', JStr ''BSC''),
            (''environment'', JStr ''Vercel Serverless''),
            (''serverlessOptimized'', JBool True)])])))"

subsection \<open>Lines 240 to 280: the handler of last resort\<close>

definition isNetworkError :: "thrown \<Rightarrow> bool" where
  "isNetworkError err =
     (case err of
        Error msg stk \<Rightarrow>
          str_includes msg ''fetch failed'' \<or> str_includes msg ''ENOTFOUND''
            \<or> str_includes msg ''timeout''
      | NonError \<Rightarrow> False)"

definition failureReport :: "'n runtime \<Rightarrow> env \<Rightarrow> thrown \<Rightarrow> 'n jsval" where
  "failureReport rt env err =
     (let errorMessage = (case err of Error msg stk \<Rightarrow> msg | NonError \<Rightarrow> ''Unknown error'')
      in JObj
       [(''confirmed'', JBool False),
        (''balance'', JNum (num_lit rt 0)),
        (''transactions'', JArr []),
        (''manualMode'', JBool (isNetworkError err)),
        (''apiStatus'', JObj
           [(''status'', JStr ''0''),
            (''message'', JStr (if isNetworkError err
               then ''Network connectivity issue in serverless environment''
               else ''Request failed'')),
            (''result'', JStr errorMessage)]),
        (''debugInfo'', JObj
           [(''error'', JStr errorMessage),
            (''stack'', (case err of Error msg stk \<Rightarrow> JStr stk | NonError \<Rightarrow> JNull)),
            (''timestamp'', JStr (toISOString rt (reportTime env))),
            (''isNetworkError'', JBool (isNetworkError err)),
            (''environment'', JStr ''Vercel Serverless''),
            (''manualVerificationUrl'', JStr
               (''https://bscscan.com/token/0x55d398326f99059fF775485246999027B3197955''
                  @ ''?a=0xa85BAC140e091e5b74c235F666e8C9849a7BBA55'')),
            (''fallbackInstructions'', JArr
               [JStr ''Network restrictions in serverless environment detected'',
                JStr ''Use manual verification with transaction hash'',
                JStr ''Check BSCScan directly for recent transactions'',
                JStr ''Copy transaction hash and verify manually''])])])"

subsection \<open>The handler\<close>

text \<open>
  Lines 24 to 239, for parameters that are present: the response or what is raised, and
  the calls issued up to then.
\<close>

definition checkPayment ::
  "'n runtime \<Rightarrow> env \<Rightarrow> string \<Rightarrow> string \<Rightarrow> (thrown + 'n response) \<times> outbound list" where
  "checkPayment rt env address expectedAmount =
     (case tryEndpoints rt (network env) (apiEndpoints address (etherscanApiKey env)) None of
        ((parsed, workingEndpoint, lastError), calls) \<Rightarrow>
          if \<not> truthy rt parsed then
            (Inr \<lparr>http_status = 200,
                  json_body = manualReport rt env address (etherscanApiKey env) lastError\<rparr>,
             calls)
          else
            (case analyse rt (clock env) address expectedAmount parsed of
               Inl err \<Rightarrow> (Inl err, calls)
             | Inr a \<Rightarrow>
                 (case refineBalance rt (network env) workingEndpoint (balance a) of
                    (finalBalance, balanceCalls) \<Rightarrow>
                      (bindE (buildResult rt env address expectedAmount (etherscanApiKey env)
                                parsed workingEndpoint a finalBalance)
                         (\<lambda>result. Inr \<lparr>http_status = 200, json_body = result\<rparr>),
                       calls @ balanceCalls))))"

text \<open>The \<^verbatim>\<open>try\<close> block, lines 5 to 239.\<close>

definition GET_try ::
  "'n runtime \<Rightarrow> env \<Rightarrow> request \<Rightarrow> (thrown + 'n response) \<times> outbound list" where
  "GET_try rt env req =
     (case (searchParams_address req, searchParams_amount req) of
        (Some address, Some expectedAmount) \<Rightarrow>
          if address = [] \<or> expectedAmount = []
          then (Inr (missingParameters (Some address) (Some expectedAmount)), [])
          else checkPayment rt env address expectedAmount
      | (address, expectedAmount) \<Rightarrow> (Inr (missingParameters address expectedAmount), []))"

text \<open>The handler: the \<^verbatim>\<open>try\<close> block and its \<^verbatim>\<open>catch\<close>.\<close>

definition GET :: "'n runtime \<Rightarrow> env \<Rightarrow> request \<Rightarrow> 'n response \<times> outbound list" where
  "GET rt env req =
     (case GET_try rt env req of
        (Inr response, calls) \<Rightarrow> (response, calls)
      | (Inl err, calls) \<Rightarrow>
          (\<lparr>http_status = 200, json_body = failureReport rt env err\<rparr>, calls))"

section \<open>A reference runtime\<close>

text \<open>
  The built-ins over exact numbers: a number is \<^verbatim>\<open>NaN\<close>, an infinity with its sign
  (\<open>True\<close> for the positive one) or a rational. Nothing is rounded and zero has no sign,
  so this runtime agrees with the engine wherever the operands and the exact result are
  doubles. It is used at concrete inputs only.
\<close>

datatype number = NaN | Infty bool | Fin rat

fun ref_neg :: "number \<Rightarrow> number" where
  "ref_neg NaN = NaN"
| "ref_neg (Infty s) = Infty (\<not> s)"
| "ref_neg (Fin x) = Fin (- x)"

fun ref_add :: "number \<Rightarrow> number \<Rightarrow> number" where
  "ref_add (Fin x) (Fin y) = Fin (x + y)"
| "ref_add (Fin x) (Infty s) = Infty s"
| "ref_add (Infty s) (Fin y) = Infty s"
| "ref_add (Infty s) (Infty t) = (if s = t then Infty s else NaN)"
| "ref_add a b = NaN"

definition ref_sub :: "number \<Rightarrow> number \<Rightarrow> number" where
  "ref_sub a b = ref_add a (ref_neg b)"

fun ref_mul :: "number \<Rightarrow> number \<Rightarrow> number" where
  "ref_mul (Fin x) (Fin y) = Fin (x * y)"
| "ref_mul (Fin x) (Infty s) = (if x = 0 then NaN else Infty (s = (0 < x)))"
| "ref_mul (Infty s) (Fin y) = (if y = 0 then NaN else Infty (s = (0 < y)))"
| "ref_mul (Infty s) (Infty t) = Infty (s = t)"
| "ref_mul a b = NaN"

fun ref_div :: "number \<Rightarrow> number \<Rightarrow> number" where
  "ref_div (Fin x) (Fin y) =
     (if y = 0 then (if x = 0 then NaN else Infty (0 < x)) else Fin (x / y))"
| "ref_div (Fin x) (Infty s) = Fin 0"
| "ref_div (Infty s) (Fin y) = Infty (s = (0 \<le> y))"
| "ref_div a b = NaN"

fun ref_abs :: "number \<Rightarrow> number" where
  "ref_abs NaN = NaN"
| "ref_abs (Infty s) = Infty True"
| "ref_abs (Fin x) = Fin \<bar>x\<bar>"

fun ref_lt :: "number \<Rightarrow> number \<Rightarrow> bool" where
  "ref_lt (Fin x) (Fin y) = (x < y)"
| "ref_lt (Fin x) (Infty s) = s"
| "ref_lt (Infty s) (Fin y) = (\<not> s)"
| "ref_lt (Infty s) (Infty t) = (\<not> s \<and> t)"
| "ref_lt a b = False"

fun ref_falsy :: "number \<Rightarrow> bool" where
  "ref_falsy NaN = True"
| "ref_falsy (Infty s) = False"
| "ref_falsy (Fin x) = (x = 0)"

text \<open>
  \<^verbatim>\<open>Math.pow\<close> for a finite base and an exponent that is a whole number, an infinity or
  \<^verbatim>\<open>NaN\<close>: the handler raises 10 to what \<^verbatim>\<open>Number.parseInt\<close> returned, or to 18.
\<close>

definition ref_pow :: "number \<Rightarrow> number \<Rightarrow> number" where
  "ref_pow b e =
     (case (b, e) of
        (Fin x, Fin k) \<Rightarrow>
          if k = of_int \<lfloor>k\<rfloor> then
            (if 0 \<le> k then Fin (x ^ nat \<lfloor>k\<rfloor>)
             else if x = 0 then Infty True
             else Fin (1 / x ^ nat (- \<lfloor>k\<rfloor>)))
          else NaN
      | (Fin x, Infty s) \<Rightarrow>
          if \<bar>x\<bar> = 1 then NaN else if (1 < \<bar>x\<bar>) = s then Infty True else Fin 0
      | _ \<Rightarrow> NaN)"

text \<open>
  \<^verbatim>\<open>new Date(x).getTime()\<close>: the time value is clipped to
  \<open>8.64 * 10^15\<close> milliseconds either side of the epoch and truncated towards zero.
\<close>

definition ref_Date_time :: "number \<Rightarrow> int option" where
  "ref_Date_time x =
     (case x of
        Fin q \<Rightarrow>
          if \<bar>q\<bar> \<le> 8640000000000000 then Some (if 0 \<le> q then \<lfloor>q\<rfloor> else \<lceil>q\<rceil>) else None
      | _ \<Rightarrow> None)"

fun index_of :: "char \<Rightarrow> string \<Rightarrow> nat option" where
  "index_of c [] = None"
| "index_of c (d # ds) =
     (if c = d then Some 0 else (case index_of c ds of None \<Rightarrow> None | Some i \<Rightarrow> Some (Suc i)))"

text \<open>The value of a digit in a radix (10 or 16), if it is one.\<close>

definition digitValue :: "nat \<Rightarrow> char \<Rightarrow> nat option" where
  "digitValue radix c =
     (case index_of c ''0123456789abcdef'' of
        Some i \<Rightarrow> if i < radix then Some i else None
      | None \<Rightarrow>
          (case index_of c ''0123456789ABCDEF'' of
             Some i \<Rightarrow> if i < radix then Some i else None
           | None \<Rightarrow> None))"

definition isDigitIn :: "nat \<Rightarrow> char \<Rightarrow> bool" where
  "isDigitIn radix c = (digitValue radix c \<noteq> None)"

definition digitsValue :: "nat \<Rightarrow> string \<Rightarrow> int" where
  "digitsValue radix ds =
     foldl (\<lambda>acc c. int radix * acc
                      + (case digitValue radix c of Some i \<Rightarrow> int i | None \<Rightarrow> 0)) 0 ds"

definition isWhiteSpace :: "char \<Rightarrow> bool" where
  "isWhiteSpace c = (c \<in> set [CHR 0x09, CHR 0x0A, CHR 0x0B, CHR 0x0C, CHR 0x0D, CHR 0x20])"

definition signed :: "string \<Rightarrow> bool \<times> string" where
  "signed s =
     (case s of
        c # cs \<Rightarrow> if c = CHR ''-'' then (True, cs) else if c = CHR ''+'' then (False, cs)
                  else (False, s)
      | [] \<Rightarrow> (False, s))"

text \<open>\<^verbatim>\<open>Number.parseInt\<close> on a string, no radix given.\<close>

definition ref_parseInt_string :: "string \<Rightarrow> number" where
  "ref_parseInt_string s =
     (case signed (dropWhile isWhiteSpace s) of
        (negative, t) \<Rightarrow>
          (let radix = (if startsWith t ''0x'' \<or> startsWith t ''0X'' then 16 else 10);
               ds = takeWhile (isDigitIn radix) (if radix = 16 then drop 2 t else t)
           in if ds = [] then NaN
              else Fin ((if negative then - 1 else 1) * of_int (digitsValue radix ds))))"

text \<open>
  On other values the built-in parses the string the value converts to. That is
  \<^verbatim>\<open>"null"\<close>, \<^verbatim>\<open>"undefined"\<close>, \<^verbatim>\<open>"true"\<close>, \<^verbatim>\<open>"false"\<close>, \<^verbatim>\<open>"NaN"\<close> or
  \<^verbatim>\<open>"Infinity"\<close>, none of which starts with a digit; the digits of a whole number below
  \<open>10^21\<close>; the elements of an array joined by commas, so that the first element
  decides (\<^verbatim>\<open>null\<close> and \<^verbatim>\<open>undefined\<close> count as empty); \<^verbatim>\<open>"[object Object]"\<close> for an
  object, unless it has a property \<^verbatim>\<open>toString\<close> of its own, which is never a function
  in parsed JSON: then the conversion raises. Numbers that are not whole or not below
  \<open>10^21\<close> are outside what this reference covers; it answers \<^verbatim>\<open>NaN\<close> for them.
\<close>

fun ref_parseInt :: "number jsval \<Rightarrow> thrown + number" where
  "ref_parseInt (JStr s) = Inr (ref_parseInt_string s)"
| "ref_parseInt (JNum (Fin q)) =
     Inr (if q = of_int \<lfloor>q\<rfloor> \<and> \<bar>q\<bar> < 10 ^ 21 then Fin q else NaN)"
| "ref_parseInt (JNum x) = Inr NaN"
| "ref_parseInt (JArr []) = Inr NaN"
| "ref_parseInt (JArr (x # xs)) = ref_parseInt x"
| "ref_parseInt (JObj kvs) =
     (if map_of kvs ''toString'' = None then Inr NaN
      else Inl (Error ''Cannot convert object to primitive value'' []))"
| "ref_parseInt v = Inr NaN"

text \<open>
  \<^verbatim>\<open>Number.parseFloat\<close>: the longest prefix that is a decimal literal (a sign, digits, a
  fraction, an exponent) or a signed \<^verbatim>\<open>Infinity\<close>.
\<close>

definition ref_exponent :: "string \<Rightarrow> int" where
  "ref_exponent s =
     (case s of
        c # cs \<Rightarrow>
          if c = CHR ''e'' \<or> c = CHR ''E'' then
            (case signed cs of
               (negative, t) \<Rightarrow>
                 (let ds = takeWhile (isDigitIn 10) t
                  in if ds = [] then 0
                     else (if negative then - 1 else 1) * digitsValue 10 ds))
          else 0
      | [] \<Rightarrow> 0)"

definition ref_parseFloat :: "string \<Rightarrow> number" where
  "ref_parseFloat s =
     (case signed (dropWhile isWhiteSpace s) of
        (negative, t) \<Rightarrow>
          if startsWith t ''Infinity'' then Infty (\<not> negative)
          else
            (let whole = takeWhile (isDigitIn 10) t;
                 afterWhole = dropWhile (isDigitIn 10) t;
                 fraction = (case afterWhole of
                               c # cs \<Rightarrow> if c = CHR ''.'' then takeWhile (isDigitIn 10) cs else []
                             | [] \<Rightarrow> []);
                 afterFraction = (case afterWhole of
                               c # cs \<Rightarrow> if c = CHR ''.'' then dropWhile (isDigitIn 10) cs
                                         else afterWhole
                             | [] \<Rightarrow> []);
                 mantissa = of_int (digitsValue 10 whole)
                            + of_int (digitsValue 10 fraction) / 10 ^ length fraction;
                 exponent = ref_exponent afterFraction
             in if whole = [] \<and> fraction = [] then NaN
                else Fin ((if negative then - 1 else 1) * mantissa *
                          (if 0 \<le> exponent then 10 ^ nat exponent
                           else 1 / 10 ^ nat (- exponent)))))"

text \<open>\<^verbatim>\<open>toLowerCase\<close> on the letters of ASCII.\<close>

definition ref_toLowerCase :: "string \<Rightarrow> string" where
  "ref_toLowerCase s =
     map (\<lambda>c. case index_of c ''ABCDEFGHIJKLMNOPQRSTUVWXYZ'' of
                 Some i \<Rightarrow> ''abcdefghijklmnopqrstuvwxyz'' ! i
               | None \<Rightarrow> c) s"

text \<open>
  \<^verbatim>\<open>toISOString\<close> of a time value: the days since the epoch are turned into a date of
  the proleptic Gregorian calendar; years outside 0 to 9999 are written with a sign and
  six digits.
\<close>

definition padded :: "nat \<Rightarrow> int \<Rightarrow> string" where
  "padded width n = replicate (width - length (decimal (nat n))) (CHR ''0'') @ decimal (nat n)"

definition ref_toISOString :: "int \<Rightarrow> string" where
  "ref_toISOString t =
     (let ms = t mod 86400000;
          z = t div 86400000 + 719468;
          era = z div 146097;
          doe = z mod 146097;
          yoe = (doe - doe div 1460 + doe div 36524 - doe div 146096) div 365;
          doy = doe - (365 * yoe + yoe div 4 - yoe div 100);
          mp = (5 * doy + 2) div 153;
          d = doy - (153 * mp + 2) div 5 + 1;
          m = (if mp < 10 then mp + 3 else mp - 9);
          y = yoe + era * 400 + (if m \<le> 2 then 1 else 0)
      in (if 0 \<le> y \<and> y \<le> 9999 then padded 4 y
          else (if y < 0 then ''-'' else ''+'') @ padded 6 \<bar>y\<bar>)
         @ ''-'' @ padded 2 m @ ''-'' @ padded 2 d
         @ ''T'' @ padded 2 (ms div 3600000) @ '':'' @ padded 2 (ms div 60000 mod 60)
         @ '':'' @ padded 2 (ms div 1000 mod 60) @ ''.'' @ padded 3 (ms mod 1000) @ ''Z'')"

text \<open>
  \<^verbatim>\<open>JSON.parse\<close> on the texts of a table, each listed with the value it denotes; any
  other text is taken to be malformed.
\<close>

definition parseTable :: "(string \<times> number jsval) list \<Rightarrow> string \<Rightarrow> thrown + number jsval" where
  "parseTable table text =
     (case map_of table text of
        Some v \<Rightarrow> Inr v
      | None \<Rightarrow> Inl (Error ''Unexpected token in JSON'' []))"

definition ref_rt :: "(string \<times> number jsval) list \<Rightarrow> number runtime" where
  "ref_rt table =
     \<lparr>JSON_parse = parseTable table,
      Number_parseInt = ref_parseInt,
      Number_parseFloat = ref_parseFloat,
      Math_pow = ref_pow,
      Math_abs = ref_abs,
      num_div = ref_div,
      num_mul = ref_mul,
      num_sub = ref_sub,
      num_add = ref_add,
      num_lt = ref_lt,
      num_lit = Fin,
      num_falsy = ref_falsy,
      Date_time = ref_Date_time,
      toISOString = ref_toISOString,
      toLowerCase = ref_toLowerCase,
      stackTrace = (\<lambda>msg. [])\<rparr>"

section \<open>Concrete inputs\<close>

text \<open>
  The inputs at which the theorems below are instantiated. The explorer answers with
  status 200 and a JSON text; one text for the transfer history, one for the token
  balance. The request asks for address \<^verbatim>\<open>0xabc\<close> and amount \<^verbatim>\<open>1\<close>, the API key is
  not set, and every reading of the clock gives the same instant.
\<close>

definition respond :: "string \<Rightarrow> fetch_outcome" where
  "respond responseText = Response 200 ''OK'' (BodyText responseText)"

definition explorer :: "string \<Rightarrow> string \<Rightarrow> outbound \<Rightarrow> fetch_outcome" where
  "explorer transfers tokens =
     (\<lambda>(url, headers). if str_includes url ''action=tokenbalance'' then respond tokens
                       else respond transfers)"

definition env_at :: "(outbound \<Rightarrow> fetch_outcome) \<Rightarrow> int \<Rightarrow> env" where
  "env_at nt now =
     \<lparr>BSCSCAN_API_KEY = None, network = nt, clock = (\<lambda>k. now), reportTime = now\<rparr>"

definition req0 :: request where
  "req0 = \<lparr>searchParams_address = Some ''0xabc'', searchParams_amount = Some ''1''\<rparr>"

text \<open>The two endpoints for that request, and the balance URL derived from the first.\<close>

definition endpoint1 :: string where
  "endpoint1 = ''https://api.bscscan.com/api?module=account&action=tokentx&contractaddress=0x55d398326f99059fF775485246999027B3197955&address=0xabc&page=1&offset=20&sort=desc&apikey=YMURRBM3WND7ZIJM8S1C5HEQXQK6W4S45B''"

definition endpoint2 :: string where
  "endpoint2 = ''https://api-bsc.etherscan.io/api?module=account&action=tokentx&contractaddress=0x55d398326f99059fF775485246999027B3197955&address=0xabc&page=1&offset=20&sort=desc&apikey=YMURRBM3WND7ZIJM8S1C5HEQXQK6W4S45B''"

definition balanceEndpoint1 :: string where
  "balanceEndpoint1 = ''https://api.bscscan.com/api?module=account&action=tokenbalance&contractaddress=0x55d398326f99059fF775485246999027B3197955&address=0xabc&tag=latest''"

text \<open>The explorer's answer when its rate limit is reached, and a token balance.\<close>

definition limitText :: string where
  \<open>limitText = ''{"status":"0","message":"NOTOK","result":"Max rate limit reached"}''\<close>

definition limitBody :: "number jsval" where
  "limitBody = JObj [(''status'', JStr ''0''), (''message'', JStr ''NOTOK''),
                     (''result'', JStr ''Max rate limit reached'')]"

definition balanceText :: string where
  \<open>balanceText = ''{"status":"1","message":"OK","result":"2500000000000000000"}''\<close>

definition balanceBody :: "number jsval" where
  "balanceBody = JObj [(''status'', JStr ''1''), (''message'', JStr ''OK''),
                       (''result'', JStr ''2500000000000000000'')]"

text \<open>
  One transfer of one token (\<open>10^18\<close> units, 18 decimals) to \<^verbatim>\<open>0xABC\<close> at second
  1700000000, and the answer that lists it. The request is made five seconds later.
\<close>

definition paidTx :: "number jsval" where
  "paidTx = JObj
     [(''hash'', JStr ''0xh1''), (''from'', JStr ''0xf1''), (''to'', JStr ''0xABC''),
      (''value'', JStr ''1000000000000000000''), (''tokenDecimal'', JStr ''18''),
      (''timeStamp'', JStr ''1700000000''), (''confirmations'', JStr ''12''),
      (''blockNumber'', JStr ''100'')]"

definition paidText :: string where
  \<open>paidText = ''{"status":"1","message":"OK","result":[{"hash":"0xh1","from":"0xf1","to":"0xABC","value":"1000000000000000000","tokenDecimal":"18","timeStamp":"1700000000","confirmations":"12","blockNumber":"100"}]}''\<close>

definition paidBody :: "number jsval" where
  "paidBody = JObj [(''status'', JStr ''1''), (''message'', JStr ''OK''), (''result'', JArr [paidTx])]"

definition paidRt :: "number runtime" where
  "paidRt = ref_rt [(paidText, paidBody), (balanceText, balanceBody)]"

definition paidEnv :: env where
  "paidEnv = env_at (explorer paidText balanceText) 1700000005000"

definition paidProcessed :: "number processedTx" where
  "paidProcessed =
     \<lparr>tx_hash = JStr ''0xh1'', tx_from = JStr ''0xf1'', tx_to = JStr ''0xABC'',
      tx_value = Fin 1, tx_timestamp = ''2023-11-14T22:13:20.000Z'',
      tx_confirmations = JStr ''12'', tx_isRecent = True, tx_isToAddress = True,
      tx_isExpectedAmount = True, tx_blockNumber = JStr ''100''\<rparr>"

definition paidShaped :: "number jsval" where
  "paidShaped =
     JObj [(''hash'', JStr ''0xh1''), (''from'', JStr ''0xf1''), (''to'', JStr ''0xABC''),
           (''value'', JNum (Fin 1)), (''timestamp'', JStr ''2023-11-14T22:13:20.000Z''),
           (''confirmations'', JStr ''12'')]"

text \<open>The rate-limited explorer, and an explorer whose answer is the JSON text \<^verbatim>\<open>null\<close>.\<close>

definition limitRt :: "number runtime" where
  "limitRt = ref_rt [(limitText, limitBody), (balanceText, balanceBody)]"

definition limitEnv :: env where
  "limitEnv = env_at (explorer limitText balanceText) 1700000005000"

definition nullRt :: "number runtime" where
  "nullRt = ref_rt [(''null'', JNull)]"

definition nullEnv :: env where
  "nullEnv = env_at (explorer ''null'' balanceText) 1700000005000"

text \<open>
  A second transfer whose \<^verbatim>\<open>timeStamp\<close> lies beyond the range of \<^verbatim>\<open>Date\<close>, and the
  answer that lists both transfers.
\<close>

definition farFutureTx :: "number jsval" where
  "farFutureTx = JObj
     [(''hash'', JStr ''0xh2''), (''from'', JStr ''0xf2''), (''to'', JStr ''0xABC''),
      (''value'', JStr ''1000000000000000000''), (''tokenDecimal'', JStr ''18''),
      (''timeStamp'', JStr ''9999999999999''), (''confirmations'', JStr ''0''),
      (''blockNumber'', JStr ''101'')]"

definition unreadableText :: string where
  \<open>unreadableText = ''{"status":"1","message":"OK","result":[{"hash":"0xh1","from":"0xf1","to":"0xABC","value":"1000000000000000000","tokenDecimal":"18","timeStamp":"1700000000","confirmations":"12","blockNumber":"100"},{"hash":"0xh2","from":"0xf2","to":"0xABC","value":"1000000000000000000","tokenDecimal":"18","timeStamp":"9999999999999","confirmations":"0","blockNumber":"101"}]}''\<close>

definition unreadableBody :: "number jsval" where
  "unreadableBody = JObj [(''status'', JStr ''1''), (''message'', JStr ''OK''),
                          (''result'', JArr [paidTx, farFutureTx])]"

definition unreadableRt :: "number runtime" where
  "unreadableRt = ref_rt [(unreadableText, unreadableBody), (balanceText, balanceBody)]"







text \<open>
  An answer whose message is empty, and an answer with status \<^verbatim>\<open>"0"\<close> whose result
  lists \<^verbatim>\<open>null\<close>.
\<close>

definition emptyMessageText :: string where
  \<open>emptyMessageText = ''{"status":"0","message":"","result":[]}''\<close>

definition emptyMessageBody :: "number jsval" where
  "emptyMessageBody = JObj [(''status'', JStr ''0''), (''message'', JStr ''''), (''result'', JArr [])]"

definition emptyMessageRt :: "number runtime" where
  "emptyMessageRt = ref_rt [(emptyMessageText, emptyMessageBody), (balanceText, balanceBody)]"

definition emptyMessageEnv :: env where
  "emptyMessageEnv = env_at (explorer emptyMessageText balanceText) 1700000005000"

definition nullElementText :: string where
  \<open>nullElementText = ''{"status":"0","message":"NOTOK","result":[null]}''\<close>

definition nullElementBody :: "number jsval" where
  "nullElementBody = JObj [(''status'', JStr ''0''), (''message'', JStr ''NOTOK''),
                           (''result'', JArr [JNull])]"

definition nullElementRt :: "number runtime" where
  "nullElementRt = ref_rt [(nullElementText, nullElementBody), (balanceText, balanceBody)]"

definition nullElementEnv :: env where
  "nullElementEnv = env_at (explorer nullElementText balanceText) 1700000005000"

text \<open>
  Two more transfers: five tokens to another address, and two tokens to \<^verbatim>\<open>0xabc\<close> at
  second 1600000000, more than three years before the request; and the answer whose
  result lists them after the first transfer.
\<close>

definition strangerTx :: "number jsval" where
  "strangerTx = JObj
     [(''hash'', JStr ''0xh3''), (''from'', JStr ''0xf3''), (''to'', JStr ''0xdef''),
      (''value'', JStr ''5000000000000000000''), (''tokenDecimal'', JStr ''18''),
      (''timeStamp'', JStr ''1700000001''), (''confirmations'', JStr ''11''),
      (''blockNumber'', JStr ''102'')]"

definition oldTx :: "number jsval" where
  "oldTx = JObj
     [(''hash'', JStr ''0xh4''), (''from'', JStr ''0xf4''), (''to'', JStr ''0xabc''),
      (''value'', JStr ''2000000000000000000''), (''tokenDecimal'', JStr ''18''),
      (''timeStamp'', JStr ''1600000000''), (''confirmations'', JStr ''900''),
      (''blockNumber'', JStr ''50'')]"

definition mixedBody :: "number jsval" where
  "mixedBody = JObj [(''status'', JStr ''1''), (''message'', JStr ''OK''),
                     (''result'', JArr [paidTx, strangerTx, oldTx])]"

text \<open>An explorer that answers the transfer history and refuses the balance call.\<close>

definition refusing :: "string \<Rightarrow> outbound \<Rightarrow> fetch_outcome" where
  "refusing transfers =
     (\<lambda>(url, headers). if str_includes url ''action=tokenbalance''
                       then Rejected (Error ''fetch failed'' [])
                       else respond transfers)"

definition refusedEnv :: env where
  "refusedEnv = env_at (refusing paidText) 1700000005000"

section \<open>Auxiliary notions\<close>

text \<open>
  The object of lines 136 to 140 for a body whose properties can be read, and the object
  that the callback of lines 215 to 222 builds from what the callback of lines 146 to
  165 computed for the same transaction.
\<close>

definition apiStatus_of :: "'n runtime \<Rightarrow> 'n jsval \<Rightarrow> 'n jsval" where
  "apiStatus_of rt parsed = JObj
     [(''status'', or_else rt (prop_of parsed ''status'') (JStr ''0'')),
      (''message'', or_else rt (prop_of parsed ''message'') (JStr ''Unknown error'')),
      (''result'', or_else rt (prop_of parsed ''result'') JNull)]"

definition shaped :: "'n processedTx \<Rightarrow> 'n jsval" where
  "shaped p = JObj [(''hash'', tx_hash p), (''from'', tx_from p), (''to'', tx_to p),
        (''value'', JNum (tx_value p)), (''timestamp'', JStr (tx_timestamp p)),
        (''confirmations'', tx_confirmations p)]"

section \<open>Basic facts\<close>

lemma bindE_simps [simp]: "bindE (Inl e) f = Inl e" "bindE (Inr x) f = f x"
  by (simp_all add: bindE_def)

lemma bindE_Inr_iff: "bindE m f = Inr y \<longleftrightarrow> (\<exists>x. m = Inr x \<and> f x = Inr y)"
  by (cases m) simp_all

lemma bindE_Inl_iff: "bindE m f = Inl e \<longleftrightarrow> m = Inl e \<or> (\<exists>x. m = Inr x \<and> f x = Inl e)"
  by (cases m) simp_all

lemma get_truthy: "truthy rt v \<Longrightarrow> get rt v k = Inr (prop_of v k)"
  by (cases v) (simp_all add: get_def)

lemma get_JObj [simp]: "get rt (JObj kvs) k = Inr (prop_of (JObj kvs) k)"
  by (simp add: get_def)

declare tryEndpoints.simps [simp del]

lemma GET_try_present:
  "searchParams_address req = Some address \<Longrightarrow> address \<noteq> [] \<Longrightarrow>
   searchParams_amount req = Some expectedAmount \<Longrightarrow> expectedAmount \<noteq> [] \<Longrightarrow>
   GET_try rt env req = checkPayment rt env address expectedAmount"
  by (simp add: GET_try_def)

lemma mapE_Inr_iff: "mapE f xs = Inr ys \<longleftrightarrow> list_all2 (\<lambda>x y. f x = Inr y) xs ys"
proof (induction xs arbitrary: ys)
  case Nil
  then show ?case by auto
next
  case (Cons x xs)
  then show ?case
    by (auto simp: bindE_Inr_iff list_all2_Cons1)
qed

lemma processTxs_Inr_iff:
  "processTxs rt address expectedAmount clk start txs = Inr ps \<longleftrightarrow>
     length ps = length txs \<and>
     (\<forall>k<length txs. processTx rt address expectedAmount (clk (start + k)) (txs ! k) = Inr (ps ! k))"
  by (auto simp: processTxs_def mapE_Inr_iff list_all2_conv_all_nth nth_enumerate_eq)

lemma processTx_Inr:
  assumes "processTx rt address expectedAmount now tx = Inr p"
  shows "txAmount rt tx = Inr (tx_value p)"
    and "\<exists>time. txTime rt tx = Inr time \<and> tx_isRecent p = isRecent now time
                \<and> Date_toISOString rt time = Inr (tx_timestamp p)"
    and "isToAddress rt address tx = Inr (tx_isToAddress p)"
    and "tx_isExpectedAmount p = isExpectedAmount rt expectedAmount (tx_value p)"
    and "get rt tx ''hash'' = Inr (tx_hash p)"
    and "get rt tx ''from'' = Inr (tx_from p)"
    and "get rt tx ''to'' = Inr (tx_to p)"
    and "get rt tx ''confirmations'' = Inr (tx_confirmations p)"
    and "get rt tx ''blockNumber'' = Inr (tx_blockNumber p)"
  using assms by (auto simp: processTx_def bindE_Inr_iff)

lemma processTx_shapeTx:
  assumes "processTx rt address expectedAmount now tx = Inr p"
  shows "shapeTx rt tx = Inr (shaped p)"
  using processTx_Inr[OF assms] by (auto simp: shapeTx_def shaped_def)

lemma processTxs_sliceMap:
  assumes "processTxs rt address expectedAmount clk start txs = Inr ps"
  shows "mapE (shapeTx rt) (take n txs) = Inr (map shaped (take n ps))"
  using assms
  by (auto simp: processTxs_Inr_iff mapE_Inr_iff list_all2_conv_all_nth dest!: processTx_shapeTx)

lemma analyse_array:
  assumes "prop_of parsed ''status'' = JStr ''1''" and "prop_of parsed ''result'' = JArr txs"
  shows "analyse rt clk address expectedAmount parsed =
     bindE (processTxs rt address expectedAmount clk 0 txs) (\<lambda>processedTxs.
       Inr \<lparr>confirmed =
              (length (filter (\<lambda>p. tx_isRecent p \<and> tx_isToAddress p \<and> tx_isExpectedAmount p)
                        processedTxs) > 0),
            matchingTransactions =
              filter (\<lambda>p. tx_isRecent p \<and> tx_isToAddress p \<and> tx_isExpectedAmount p) processedTxs,
            balance = foldl (\<lambda>sum p. num_add rt sum (tx_value p)) (num_lit rt 0)
                        (filter tx_isToAddress processedTxs),
            apiStatus = apiStatus_of rt parsed\<rparr>)"
proof -
  have "truthy rt parsed"
    using assms(1) by (cases parsed) auto
  then show ?thesis
    using assms by (simp add: analyse_def get_truthy Let_def apiStatus_of_def)
qed

lemma analyse_other:
  assumes "truthy rt parsed"
    and "\<not> (prop_of parsed ''status'' = JStr ''1'' \<and> truthy rt (prop_of parsed ''result'')
            \<and> isArray (prop_of parsed ''result''))"
  shows "analyse rt clk address expectedAmount parsed =
     Inr \<lparr>confirmed = False, matchingTransactions = [], balance = num_lit rt 0,
          apiStatus = apiStatus_of rt parsed\<rparr>"
  using assms by (auto simp add: analyse_def get_truthy Let_def apiStatus_of_def)

lemma analyse_apiStatus:
  "analyse rt clk address expectedAmount parsed = Inr a \<Longrightarrow> truthy rt parsed
     \<Longrightarrow> apiStatus a = apiStatus_of rt parsed"
  by (auto simp: analyse_def get_truthy Let_def apiStatus_of_def bindE_Inr_iff split: if_splits)

lemma checkPayment_manual:
  assumes "tryEndpoints rt (network env) (apiEndpoints address (etherscanApiKey env)) None
             = ((parsed, workingEndpoint, lastError), calls)"
      and "\<not> truthy rt parsed"
  shows "checkPayment rt env address expectedAmount =
           (Inr \<lparr>http_status = 200,
                 json_body = manualReport rt env address (etherscanApiKey env) lastError\<rparr>, calls)"
  using assms by (simp add: checkPayment_def)

lemma checkPayment_raised:
  assumes "tryEndpoints rt (network env) (apiEndpoints address (etherscanApiKey env)) None
             = ((parsed, workingEndpoint, lastError), calls)"
      and "truthy rt parsed"
      and "analyse rt (clock env) address expectedAmount parsed = Inl err"
  shows "checkPayment rt env address expectedAmount = (Inl err, calls)"
  using assms by (simp add: checkPayment_def)

lemma checkPayment_analysed:
  assumes "tryEndpoints rt (network env) (apiEndpoints address (etherscanApiKey env)) None
             = ((parsed, workingEndpoint, lastError), calls)"
      and "truthy rt parsed"
      and "analyse rt (clock env) address expectedAmount parsed = Inr a"
  shows "checkPayment rt env address expectedAmount =
           (bindE (buildResult rt env address expectedAmount (etherscanApiKey env) parsed
                     workingEndpoint a
                     (fst (refineBalance rt (network env) workingEndpoint (balance a))))
              (\<lambda>result. Inr \<lparr>http_status = 200, json_body = result\<rparr>),
            calls @ snd (refineBalance rt (network env) workingEndpoint (balance a)))"
  using assms by (simp add: checkPayment_def split: prod.splits)

lemma checkPayment_status:
  "checkPayment rt env address expectedAmount = (Inr response, calls) \<Longrightarrow> http_status response = 200"
  by (auto simp: checkPayment_def bindE_Inr_iff split: prod.splits if_splits sum.splits)

lemma GET_cases:
  "GET_try rt env req = (Inr response, calls) \<Longrightarrow> GET rt env req = (response, calls)"
  "GET_try rt env req = (Inl err, calls) \<Longrightarrow>
     GET rt env req = (\<lparr>http_status = 200, json_body = failureReport rt env err\<rparr>, calls)"
  by (simp_all add: GET_def)


lemma failureReport_fields:
  "prop_of (failureReport rt env err) ''confirmed'' = JBool False"
  "prop_of (failureReport rt env err) ''balance'' = JNum (num_lit rt 0)"
  "prop_of (failureReport rt env err) ''transactions'' = JArr []"
  "prop_of (failureReport rt env err) ''manualMode'' = JBool (isNetworkError err)"
  by (simp_all add: failureReport_def Let_def)

lemma report_fields:
  assumes params: "searchParams_address req = Some address" "address \<noteq> []"
                  "searchParams_amount req = Some expectedAmount" "expectedAmount \<noteq> []"
    and loop: "tryEndpoints rt (network env) (apiEndpoints address (etherscanApiKey env)) None
                 = ((parsed, workingEndpoint, lastError), calls)"
    and truthy: "truthy rt parsed"
    and analysed: "analyse rt (clock env) address expectedAmount parsed = Inr a"
    and shaped: "(if truthy rt (prop_of parsed ''result'')
                  then sliceMap rt (prop_of parsed ''result'') else Inr []) = Inr ts"
  shows "\<exists>dbg. GET_try rt env req =
           (Inr \<lparr>http_status = 200,
                 json_body = JObj
                   [(''confirmed'', JBool (confirmed a)),
                    (''balance'',
                       JNum (fst (refineBalance rt (network env) workingEndpoint (balance a)))),
                    (''transactions'', JArr ts),
                    (''apiStatus'', apiStatus a),
                    (''debugInfo'', dbg)]\<rparr>,
            calls @ snd (refineBalance rt (network env) workingEndpoint (balance a)))"
  using checkPayment_analysed[OF loop truthy analysed] shaped
  by (simp add: GET_try_present[OF params] buildResult_def get_truthy[OF truthy])

lemma no_error_cases:
  assumes params: "searchParams_address req = Some address" "address \<noteq> []"
                  "searchParams_amount req = Some expectedAmount" "expectedAmount \<noteq> []"
    and loop: "tryEndpoints rt (network env) (apiEndpoints address (etherscanApiKey env)) None
                 = ((parsed, workingEndpoint, lastError), calls)"
    and truthy: "truthy rt parsed"
    and no_error: "GET_try rt env req = (Inr response, calls')"
  shows "\<exists>a ts. analyse rt (clock env) address expectedAmount parsed = Inr a
               \<and> (if truthy rt (prop_of parsed ''result'')
                    then sliceMap rt (prop_of parsed ''result'') else Inr []) = Inr ts"
proof (cases "analyse rt (clock env) address expectedAmount parsed")
  case (Inl err)
  from checkPayment_raised[OF loop truthy Inl] no_error show ?thesis
    by (simp add: GET_try_present[OF params])
next
  case (Inr a)
  from checkPayment_analysed[OF loop truthy Inr] no_error Inr show ?thesis
    by (auto simp: GET_try_present[OF params] buildResult_def get_truthy[OF truthy] bindE_Inr_iff)
qed

lemma matching_iff:
  assumes "processTxs rt address expectedAmount clk 0 txs = Inr ps"
  shows "(length (filter (\<lambda>p. tx_isRecent p \<and> tx_isToAddress p \<and> tx_isExpectedAmount p) ps) > 0)
     \<longleftrightarrow> (\<exists>k<length txs. \<exists>amount time.
            txAmount rt (txs ! k) = Inr amount \<and> txTime rt (txs ! k) = Inr time
            \<and> isRecent (clk k) time
            \<and> isToAddress rt address (txs ! k) = Inr True
            \<and> isExpectedAmount rt expectedAmount amount)"
proof -
  have len: "length ps = length txs"
    and each: "\<And>k. k < length txs \<Longrightarrow>
                 processTx rt address expectedAmount (clk k) (txs ! k) = Inr (ps ! k)"
    using assms by (simp_all add: processTxs_Inr_iff)
  have "(length (filter (\<lambda>p. tx_isRecent p \<and> tx_isToAddress p \<and> tx_isExpectedAmount p) ps) > 0)
     \<longleftrightarrow> (\<exists>k<length txs. tx_isRecent (ps ! k) \<and> tx_isToAddress (ps ! k) \<and> tx_isExpectedAmount (ps ! k))"
    unfolding len[symmetric]
    by (auto simp: length_greater_0_conv filter_empty_conv in_set_conv_nth) (use nth_mem in blast)
  also have "\<dots> \<longleftrightarrow> (\<exists>k<length txs. \<exists>amount time.
            txAmount rt (txs ! k) = Inr amount \<and> txTime rt (txs ! k) = Inr time
            \<and> isRecent (clk k) time
            \<and> isToAddress rt address (txs ! k) = Inr True
            \<and> isExpectedAmount rt expectedAmount amount)"
  proof (intro ex_cong1 conj_cong refl)
    fix k assume "k < length txs"
    from processTx_Inr[OF each[OF this]]
    show "(tx_isRecent (ps ! k) \<and> tx_isToAddress (ps ! k) \<and> tx_isExpectedAmount (ps ! k))
       \<longleftrightarrow> (\<exists>amount time.
            txAmount rt (txs ! k) = Inr amount \<and> txTime rt (txs ! k) = Inr time
            \<and> isRecent (clk k) time
            \<and> isToAddress rt address (txs ! k) = Inr True
            \<and> isExpectedAmount rt expectedAmount amount)"
      by auto
  qed
  finally show ?thesis .
qed

lemma confirmed_field:
  assumes params: "searchParams_address req = Some address" "address \<noteq> []"
                  "searchParams_amount req = Some expectedAmount" "expectedAmount \<noteq> []"
    and loop: "tryEndpoints rt (network env) (apiEndpoints address (etherscanApiKey env)) None
                 = ((parsed, workingEndpoint, lastError), calls)"
    and status: "prop_of parsed ''status'' = JStr ''1''"
    and result: "prop_of parsed ''result'' = JArr txs"
    and readable: "processTxs rt address expectedAmount (clock env) 0 txs = Inr ps"
  shows "http_status (fst (GET rt env req)) = 200
     \<and> prop_of (json_body (fst (GET rt env req))) ''confirmed'' =
         JBool (\<exists>k<length txs. \<exists>amount time.
            txAmount rt (txs ! k) = Inr amount \<and> txTime rt (txs ! k) = Inr time
            \<and> isRecent (clock env k) time
            \<and> isToAddress rt address (txs ! k) = Inr True
            \<and> isExpectedAmount rt expectedAmount amount)"
proof -
  have truthy: "truthy rt parsed"
    using status by (cases parsed) auto
  obtain a where analysed: "analyse rt (clock env) address expectedAmount parsed = Inr a"
    and conf: "confirmed a =
      (length (filter (\<lambda>p. tx_isRecent p \<and> tx_isToAddress p \<and> tx_isExpectedAmount p) ps) > 0)"
    by (simp add: analyse_array[OF status result] readable)
  have shaped: "(if truthy rt (prop_of parsed ''result'')
                  then sliceMap rt (prop_of parsed ''result'') else Inr [])
                = Inr (map shaped (take 10 ps))"
    by (simp add: result sliceMap_def processTxs_sliceMap[OF readable])
  have "confirmed a = (\<exists>k<length txs. \<exists>amount time.
            txAmount rt (txs ! k) = Inr amount \<and> txTime rt (txs ! k) = Inr time
            \<and> isRecent (clock env k) time
            \<and> isToAddress rt address (txs ! k) = Inr True
            \<and> isExpectedAmount rt expectedAmount amount)"
    unfolding conf by (rule matching_iff[OF readable])
  with report_fields[OF params loop truthy analysed shaped]
  show ?thesis
    by (auto simp: GET_def)
qed

lemma incoming_amounts:
  "processTxs rt address expectedAmount clk start txs = Inr ps \<Longrightarrow>
     map tx_value (filter tx_isToAddress ps) =
       map (\<lambda>tx. projr (txAmount rt tx)) (filter (\<lambda>tx. isToAddress rt address tx = Inr True) txs)
     \<and> (\<forall>tx\<in>set txs. \<exists>amount toAddress.
           txAmount rt tx = Inr amount \<and> isToAddress rt address tx = Inr toAddress)"
proof (induction txs arbitrary: start ps)
  case Nil
  then show ?case by (simp add: processTxs_def)
next
  case (Cons tx txs)
  from Cons.prems obtain p ps' where
    p: "processTx rt address expectedAmount (clk start) tx = Inr p"
    and ps': "processTxs rt address expectedAmount clk (Suc start) txs = Inr ps'"
    and ps: "ps = p # ps'"
    by (auto simp: processTxs_def bindE_Inr_iff)
  from processTx_Inr(1,3)[OF p] Cons.IH[OF ps'] show ?case
    by (simp add: ps)
qed

lemma get_Inr: "get rt v k = Inr x \<Longrightarrow> x = prop_of v k"
  by (cases v) (auto simp: get_def)






lemma fetchBalance_success:
  assumes "nt (balanceUrl url, balanceHeaders) = Response st stText (BodyText responseText)"
      and "ok st"
      and "JSON_parse rt responseText = Inr balanceData"
      and "prop_of balanceData ''status'' = JStr ''1''"
      and "Number_parseInt rt (or_else rt (prop_of balanceData ''result'') (JStr ''0'')) = Inr wei"
  shows "fetchBalance rt nt url =
           Inr (Some (num_div rt wei (Math_pow rt (num_lit rt 10) (num_lit rt 18))))"
proof -
  have "truthy rt balanceData"
    using assms(4) by (cases balanceData) auto
  then show ?thesis
    using assms by (simp add: fetchBalance_def get_truthy)
qed

lemma refineBalance_Some:
  "fst (refineBalance rt nt (Some url) transferBalance) =
     (case fetchBalance rt nt url of Inr (Some fresh) \<Rightarrow> fresh | Inr None \<Rightarrow> transferBalance
      | Inl balanceError \<Rightarrow> transferBalance)"
  "snd (refineBalance rt nt (Some url) transferBalance) = [(balanceUrl url, balanceHeaders)]"
  by (simp_all add: refineBalance_def)

lemma startsWith_append_pattern:
  "startsWith (xs @ ys) (p # ps) =
     (case xs of [] \<Rightarrow> startsWith ys (p # ps) | x # xs' \<Rightarrow> x = p \<and> startsWith (xs' @ ys) ps)"
  by (cases xs) simp_all

lemma startsWith_across_page:
  "startsWith (c # cs @ ''&page='' @ rest) ''&page='' = startsWith (c # cs) ''&page=''"
  by (auto simp: startsWith_append_pattern split: list.splits)

lemma split_head_page:
  "split_head (a @ ''&page='' @ rest) ''&page='' = split_head a ''&page=''"
proof (induction a)
  case Nil
  then show ?case by simp
next
  case (Cons c cs)
  from startsWith_across_page[of c cs rest] Cons.IH show ?case
    by (simp del: startsWith.simps)
qed

lemma split_head_page_cons:
  "split_head (a @ CHR ''&'' # CHR ''p'' # CHR ''a'' # CHR ''g'' # CHR ''e'' # CHR ''='' # rest)
     ''&page='' = split_head a ''&page=''"
  using split_head_page[of a rest] by simp

lemma balanceUrl_of_endpoints:
  "map balanceUrl (apiEndpoints address apiKey) =
     [''https://api.bscscan.com/api?module=account&action=tokenbalance&contractaddress=''
        @ usdtContract @ ''&address='' @ split_head address ''&page='' @ ''&tag=latest'',
      ''https://api-bsc.etherscan.io/api?module=account&action=tokenbalance&contractaddress=''
        @ usdtContract @ ''&address='' @ split_head address ''&page='' @ ''&tag=latest'']"
  unfolding apiEndpoints_def balanceUrl_def usdtContract_def
  by (simp add: split_head_page_cons)

text \<open>
  The callbacks in terms of the built-ins: when a transaction is processed without an
  error, and what its amount and its three booleans are then.
\<close>

lemma txAmount_Inr_iff:
  "txAmount rt tx = Inr amount \<longleftrightarrow>
     tx \<noteq> JUndefined \<and> tx \<noteq> JNull
     \<and> (\<exists>units decimals.
           Number_parseInt rt (prop_of tx ''value'') = Inr units
         \<and> Number_parseInt rt (prop_of tx ''tokenDecimal'') = Inr decimals
         \<and> amount = num_div rt units (Math_pow rt (num_lit rt 10) decimals))"
  by (cases tx) (auto simp: txAmount_def get_def bindE_Inr_iff)

lemma txTime_Inr_iff:
  "txTime rt tx = Inr time \<longleftrightarrow>
     tx \<noteq> JUndefined \<and> tx \<noteq> JNull
     \<and> (\<exists>seconds. Number_parseInt rt (prop_of tx ''timeStamp'') = Inr seconds
           \<and> time = Date_time rt (num_mul rt seconds (num_lit rt 1000)))"
  by (cases tx) (auto simp: txTime_def get_def bindE_Inr_iff)

lemma isToAddress_Inr_iff:
  "isToAddress rt address tx = Inr b \<longleftrightarrow>
     tx \<noteq> JUndefined \<and> tx \<noteq> JNull
     \<and> (\<exists>s. prop_of tx ''to'' = JStr s \<and> b = (toLowerCase rt s = toLowerCase rt address))"
  by (cases tx; cases "prop_of tx ''to''")
     (auto simp: isToAddress_def toLowerCase_of_def get_def bindE_Inr_iff)

lemma processTx_returns_iff:
  "(\<exists>p. processTx rt address expectedAmount now tx = Inr p) \<longleftrightarrow>
     (\<exists>s. prop_of tx ''to'' = JStr s)
     \<and> (\<exists>units. Number_parseInt rt (prop_of tx ''value'') = Inr units)
     \<and> (\<exists>decimals. Number_parseInt rt (prop_of tx ''tokenDecimal'') = Inr decimals)
     \<and> (\<exists>seconds t. Number_parseInt rt (prop_of tx ''timeStamp'') = Inr seconds
            \<and> Date_time rt (num_mul rt seconds (num_lit rt 1000)) = Some t)"
proof -
  have "(\<exists>p. processTx rt address expectedAmount now tx = Inr p) \<longleftrightarrow>
          (\<exists>amount time b iso. txAmount rt tx = Inr amount \<and> txTime rt tx = Inr time
             \<and> isToAddress rt address tx = Inr b \<and> Date_toISOString rt time = Inr iso)"
    by (cases tx) (auto simp: processTx_def bindE_Inr_iff get_def txAmount_def)
  also have "\<dots> \<longleftrightarrow> (\<exists>s. prop_of tx ''to'' = JStr s)
     \<and> (\<exists>units. Number_parseInt rt (prop_of tx ''value'') = Inr units)
     \<and> (\<exists>decimals. Number_parseInt rt (prop_of tx ''tokenDecimal'') = Inr decimals)
     \<and> (\<exists>seconds t. Number_parseInt rt (prop_of tx ''timeStamp'') = Inr seconds
            \<and> Date_time rt (num_mul rt seconds (num_lit rt 1000)) = Some t)"
    unfolding txAmount_Inr_iff txTime_Inr_iff isToAddress_Inr_iff
    by (auto simp: Date_toISOString_def split: option.splits; metis)
  finally show ?thesis .
qed

lemma mapE_returns_iff: "(\<exists>ys. mapE f xs = Inr ys) \<longleftrightarrow> (\<forall>x\<in>set xs. \<exists>y. f x = Inr y)"
  by (induction xs) (auto simp: bindE_Inr_iff)

lemma processTxs_returns_iff:
  "(\<exists>ps. processTxs rt address expectedAmount clk start txs = Inr ps) \<longleftrightarrow>
     (\<forall>tx\<in>set txs. \<exists>p. processTx rt address expectedAmount 0 tx = Inr p)"
proof -
  have "(\<exists>ps. processTxs rt address expectedAmount clk start txs = Inr ps) \<longleftrightarrow>
          (\<forall>x\<in>set (enumerate start txs). \<exists>p. processTx rt address expectedAmount 0 (snd x) = Inr p)"
    unfolding processTxs_def mapE_returns_iff
    by (simp add: case_prod_beta processTx_returns_iff)
  also have "\<dots> \<longleftrightarrow> (\<forall>tx\<in>snd ` set (enumerate start txs).
                          \<exists>p. processTx rt address expectedAmount 0 tx = Inr p)"
    by blast
  also have "snd ` set (enumerate start txs) = set txs"
    by (metis map_snd_enumerate set_map)
  finally show ?thesis .
qed

lemma processTxs_cases:
  "(\<exists>ps. processTxs rt address expectedAmount clk start txs = Inr ps)
     \<or> (\<exists>err. processTxs rt address expectedAmount clk start txs = Inl err)"
  by (cases "processTxs rt address expectedAmount clk start txs") auto

lemma string_property: "prop_of tx k = JStr s \<Longrightarrow> tx \<noteq> JUndefined \<and> tx \<noteq> JNull"
  by (cases tx) auto

lemma isRecent_iff: "isRecent now time \<longleftrightarrow> (\<exists>t. time = Some t \<and> now - t < 3600000)"
  by (cases time) (auto simp: isRecent_def)

lemma match_in_primitives:
  "(\<exists>amount time.
      txAmount rt tx = Inr amount \<and> txTime rt tx = Inr time \<and> isRecent now time
      \<and> isToAddress rt address tx = Inr True \<and> isExpectedAmount rt expectedAmount amount)
   \<longleftrightarrow>
   (\<exists>s units decimals seconds t.
      prop_of tx ''to'' = JStr s \<and> toLowerCase rt s = toLowerCase rt address
      \<and> Number_parseInt rt (prop_of tx ''value'') = Inr units
      \<and> Number_parseInt rt (prop_of tx ''tokenDecimal'') = Inr decimals
      \<and> num_lt rt
            (Math_abs rt
               (num_sub rt (num_div rt units (Math_pow rt (num_lit rt 10) decimals))
                  (Number_parseFloat rt expectedAmount)))
            (num_lit rt (1 / 1000))
      \<and> Number_parseInt rt (prop_of tx ''timeStamp'') = Inr seconds
      \<and> Date_time rt (num_mul rt seconds (num_lit rt 1000)) = Some t
      \<and> now - t < 3600000)"
  unfolding txAmount_Inr_iff txTime_Inr_iff isToAddress_Inr_iff isRecent_iff isExpectedAmount_def
  by (auto simp del: prop_of.simps dest: string_property)

lemma raised_confirmed:
  assumes params: "searchParams_address req = Some address" "address \<noteq> []"
                  "searchParams_amount req = Some expectedAmount" "expectedAmount \<noteq> []"
    and loop: "tryEndpoints rt (network env) (apiEndpoints address (etherscanApiKey env)) None
                 = ((parsed, workingEndpoint, lastError), calls)"
    and status: "prop_of parsed ''status'' = JStr ''1''"
    and result: "prop_of parsed ''result'' = JArr txs"
    and raised: "processTxs rt address expectedAmount (clock env) 0 txs = Inl err"
  shows "GET rt env req = (\<lparr>http_status = 200, json_body = failureReport rt env err\<rparr>, calls)"
proof -
  have truthy: "truthy rt parsed"
    using status by (cases parsed) auto
  have "analyse rt (clock env) address expectedAmount parsed = Inl err"
    by (simp add: analyse_array[OF status result] raised)
  from checkPayment_raised[OF loop truthy this] show ?thesis
    by (simp add: GET_def GET_try_present[OF params])
qed

lemma confirmed_in_primitives:
  assumes params: "searchParams_address req = Some address" "address \<noteq> []"
                  "searchParams_amount req = Some expectedAmount" "expectedAmount \<noteq> []"
    and loop: "tryEndpoints rt (network env) (apiEndpoints address (etherscanApiKey env)) None
                 = ((parsed, workingEndpoint, lastError), calls)"
    and status: "prop_of parsed ''status'' = JStr ''1''"
    and result: "prop_of parsed ''result'' = JArr txs"
  shows "http_status (fst (GET rt env req)) = 200
     \<and> prop_of (json_body (fst (GET rt env req))) ''confirmed'' =
         JBool ((\<forall>tx\<in>set txs.
                    (\<exists>s. prop_of tx ''to'' = JStr s)
                  \<and> (\<exists>units. Number_parseInt rt (prop_of tx ''value'') = Inr units)
                  \<and> (\<exists>decimals. Number_parseInt rt (prop_of tx ''tokenDecimal'') = Inr decimals)
                  \<and> (\<exists>seconds t. Number_parseInt rt (prop_of tx ''timeStamp'') = Inr seconds
                         \<and> Date_time rt (num_mul rt seconds (num_lit rt 1000)) = Some t))
              \<and> (\<exists>k<length txs. \<exists>s units decimals seconds t.
                    prop_of (txs ! k) ''to'' = JStr s \<and> toLowerCase rt s = toLowerCase rt address
                  \<and> Number_parseInt rt (prop_of (txs ! k) ''value'') = Inr units
                  \<and> Number_parseInt rt (prop_of (txs ! k) ''tokenDecimal'') = Inr decimals
                  \<and> num_lt rt
                        (Math_abs rt
                           (num_sub rt (num_div rt units (Math_pow rt (num_lit rt 10) decimals))
                              (Number_parseFloat rt expectedAmount)))
                        (num_lit rt (1 / 1000))
                  \<and> Number_parseInt rt (prop_of (txs ! k) ''timeStamp'') = Inr seconds
                  \<and> Date_time rt (num_mul rt seconds (num_lit rt 1000)) = Some t
                  \<and> clock env k - t < 3600000))"
    (is "_ \<and> _ = JBool (?readable \<and> ?matching)")
proof (cases ?readable)
  case True
  then obtain ps where ps: "processTxs rt address expectedAmount (clock env) 0 txs = Inr ps"
    using processTxs_returns_iff[of rt address expectedAmount "clock env" 0 txs]
    by (auto simp: processTx_returns_iff)
  from confirmed_field[OF params loop status result ps]
  have answered: "http_status (fst (GET rt env req)) = 200"
    and field: "prop_of (json_body (fst (GET rt env req))) ''confirmed'' = JBool ?matching"
    unfolding match_in_primitives by blast+
  have "(?readable \<and> ?matching) = ?matching"
    using True by blast
  then show ?thesis
    using answered field by (simp only:)
next
  case False
  then have "\<not> (\<exists>ps. processTxs rt address expectedAmount (clock env) 0 txs = Inr ps)"
    unfolding processTxs_returns_iff processTx_returns_iff by blast
  then obtain err where "processTxs rt address expectedAmount (clock env) 0 txs = Inl err"
    using processTxs_cases by blast
  from raised_confirmed[OF params loop status result this]
  have answered: "http_status (fst (GET rt env req)) = 200"
    and field: "prop_of (json_body (fst (GET rt env req))) ''confirmed'' = JBool False"
    by (simp_all add: failureReport_fields)
  have "(?readable \<and> ?matching) = False"
    using False by blast
  then show ?thesis
    using answered field by (simp only:)
qed

lemma amount_in_primitives:
  assumes "prop_of tx ''to'' = JStr s"
      and "Number_parseInt rt (prop_of tx ''value'') = Inr units"
      and "Number_parseInt rt (prop_of tx ''tokenDecimal'') = Inr decimals"
  shows "txAmount rt tx = Inr (num_div rt units (Math_pow rt (num_lit rt 10) decimals))"
  using assms string_property[OF assms(1)] by (simp add: txAmount_Inr_iff del: prop_of.simps)

lemma recipient_in_primitives:
  assumes "prop_of tx ''to'' = JStr s"
  shows "isToAddress rt address tx = Inr True \<longleftrightarrow> toLowerCase rt s = toLowerCase rt address"
  using assms string_property[OF assms] by (auto simp: isToAddress_Inr_iff simp del: prop_of.simps)

lemma balance_in_primitives:
  assumes status: "prop_of parsed ''status'' = JStr ''1''"
    and result: "prop_of parsed ''result'' = JArr txs"
    and readable: "\<forall>tx\<in>set txs.
                    (\<exists>s. prop_of tx ''to'' = JStr s)
                  \<and> (\<exists>units. Number_parseInt rt (prop_of tx ''value'') = Inr units)
                  \<and> (\<exists>decimals. Number_parseInt rt (prop_of tx ''tokenDecimal'') = Inr decimals)
                  \<and> (\<exists>seconds t. Number_parseInt rt (prop_of tx ''timeStamp'') = Inr seconds
                         \<and> Date_time rt (num_mul rt seconds (num_lit rt 1000)) = Some t)"
  shows "\<exists>a. analyse rt clk address expectedAmount parsed = Inr a
     \<and> balance a =
         foldl (num_add rt) (num_lit rt 0)
           (map (\<lambda>tx. num_div rt (projr (Number_parseInt rt (prop_of tx ''value'')))
                        (Math_pow rt (num_lit rt 10)
                           (projr (Number_parseInt rt (prop_of tx ''tokenDecimal'')))))
              (filter (\<lambda>tx. \<exists>s. prop_of tx ''to'' = JStr s
                                \<and> toLowerCase rt s = toLowerCase rt address) txs))"
proof -
  from readable obtain ps where ps: "processTxs rt address expectedAmount clk 0 txs = Inr ps"
    using processTxs_returns_iff[of rt address expectedAmount clk 0 txs]
    by (auto simp: processTx_returns_iff)
  let ?a = "\<lparr>confirmed =
              (length (filter (\<lambda>p. tx_isRecent p \<and> tx_isToAddress p \<and> tx_isExpectedAmount p)
                        ps) > 0),
            matchingTransactions =
              filter (\<lambda>p. tx_isRecent p \<and> tx_isToAddress p \<and> tx_isExpectedAmount p) ps,
            balance = foldl (\<lambda>sum p. num_add rt sum (tx_value p)) (num_lit rt 0)
                        (filter tx_isToAddress ps),
            apiStatus = apiStatus_of rt parsed\<rparr>"
  have analysed: "analyse rt clk address expectedAmount parsed = Inr ?a"
    by (simp add: analyse_array[OF status result] ps)
  have "balance ?a = foldl (num_add rt) (num_lit rt 0) (map tx_value (filter tx_isToAddress ps))"
    by (simp add: foldl_map)
  also have "map tx_value (filter tx_isToAddress ps) =
       map (\<lambda>tx. projr (txAmount rt tx)) (filter (\<lambda>tx. isToAddress rt address tx = Inr True) txs)"
    using incoming_amounts[OF ps] by blast
  also have "filter (\<lambda>tx. isToAddress rt address tx = Inr True) txs =
       filter (\<lambda>tx. \<exists>s. prop_of tx ''to'' = JStr s
                        \<and> toLowerCase rt s = toLowerCase rt address) txs"
  proof (rule filter_cong[OF refl])
    fix tx assume "tx \<in> set txs"
    with readable obtain s where "prop_of tx ''to'' = JStr s"
      by blast
    from recipient_in_primitives[OF this] this
    show "(isToAddress rt address tx = Inr True) =
            (\<exists>s. prop_of tx ''to'' = JStr s \<and> toLowerCase rt s = toLowerCase rt address)"
      by (simp del: prop_of.simps)
  qed
  also have "map (\<lambda>tx. projr (txAmount rt tx))
               (filter (\<lambda>tx. \<exists>s. prop_of tx ''to'' = JStr s
                                \<and> toLowerCase rt s = toLowerCase rt address) txs) =
       map (\<lambda>tx. num_div rt (projr (Number_parseInt rt (prop_of tx ''value'')))
                        (Math_pow rt (num_lit rt 10)
                           (projr (Number_parseInt rt (prop_of tx ''tokenDecimal'')))))
         (filter (\<lambda>tx. \<exists>s. prop_of tx ''to'' = JStr s
                          \<and> toLowerCase rt s = toLowerCase rt address) txs)"
  proof (rule map_cong[OF refl])
    fix tx assume "tx \<in> set (filter (\<lambda>tx. \<exists>s. prop_of tx ''to'' = JStr s
                                \<and> toLowerCase rt s = toLowerCase rt address) txs)"
    then have "tx \<in> set txs"
      by simp
    with readable obtain s units decimals where
      "prop_of tx ''to'' = JStr s"
      "Number_parseInt rt (prop_of tx ''value'') = Inr units"
      "Number_parseInt rt (prop_of tx ''tokenDecimal'') = Inr decimals"
      by blast
    from amount_in_primitives[OF this] this(2,3)
    show "projr (txAmount rt tx) =
            num_div rt (projr (Number_parseInt rt (prop_of tx ''value'')))
              (Math_pow rt (num_lit rt 10)
                 (projr (Number_parseInt rt (prop_of tx ''tokenDecimal''))))"
      by (simp del: prop_of.simps)
  qed
  finally show ?thesis
    using analysed by blast
qed

lemma no_balance_when_raised:
  assumes status: "prop_of parsed ''status'' = JStr ''1''"
    and result: "prop_of parsed ''result'' = JArr txs"
    and unreadable: "\<not> (\<forall>tx\<in>set txs.
                    (\<exists>s. prop_of tx ''to'' = JStr s)
                  \<and> (\<exists>units. Number_parseInt rt (prop_of tx ''value'') = Inr units)
                  \<and> (\<exists>decimals. Number_parseInt rt (prop_of tx ''tokenDecimal'') = Inr decimals)
                  \<and> (\<exists>seconds t. Number_parseInt rt (prop_of tx ''timeStamp'') = Inr seconds
                         \<and> Date_time rt (num_mul rt seconds (num_lit rt 1000)) = Some t))"
  shows "\<exists>err. analyse rt clk address expectedAmount parsed = Inl err"
proof -
  from unreadable have "\<not> (\<exists>ps. processTxs rt address expectedAmount clk 0 txs = Inr ps)"
    unfolding processTxs_returns_iff processTx_returns_iff by blast
  then obtain err where "processTxs rt address expectedAmount clk 0 txs = Inl err"
    using processTxs_cases by blast
  then show ?thesis
    by (simp add: analyse_array[OF status result])
qed

lemma fetchBalance_Some_iff:
  "fetchBalance rt nt url = Inr (Some fresh) \<longleftrightarrow>
     (\<exists>st stText responseText balanceData wei.
        nt (balanceUrl url, balanceHeaders) = Response st stText (BodyText responseText)
      \<and> ok st
      \<and> JSON_parse rt responseText = Inr balanceData
      \<and> prop_of balanceData ''status'' = JStr ''1''
      \<and> Number_parseInt rt (or_else rt (prop_of balanceData ''result'') (JStr ''0'')) = Inr wei
      \<and> fresh = num_div rt wei (Math_pow rt (num_lit rt 10) (num_lit rt 18)))"
proof
  assume "fetchBalance rt nt url = Inr (Some fresh)"
  then show "\<exists>st stText responseText balanceData wei.
        nt (balanceUrl url, balanceHeaders) = Response st stText (BodyText responseText)
      \<and> ok st
      \<and> JSON_parse rt responseText = Inr balanceData
      \<and> prop_of balanceData ''status'' = JStr ''1''
      \<and> Number_parseInt rt (or_else rt (prop_of balanceData ''result'') (JStr ''0'')) = Inr wei
      \<and> fresh = num_div rt wei (Math_pow rt (num_lit rt 10) (num_lit rt 18))"
    by (auto simp: fetchBalance_def bindE_Inr_iff simp del: prop_of.simps
          split: fetch_outcome.splits body.splits if_splits dest!: get_Inr)
next
  assume "\<exists>st stText responseText balanceData wei.
        nt (balanceUrl url, balanceHeaders) = Response st stText (BodyText responseText)
      \<and> ok st
      \<and> JSON_parse rt responseText = Inr balanceData
      \<and> prop_of balanceData ''status'' = JStr ''1''
      \<and> Number_parseInt rt (or_else rt (prop_of balanceData ''result'') (JStr ''0'')) = Inr wei
      \<and> fresh = num_div rt wei (Math_pow rt (num_lit rt 10) (num_lit rt 18))"
  then show "fetchBalance rt nt url = Inr (Some fresh)"
    using fetchBalance_success[where nt = nt and rt = rt and url = url] by blast
qed

lemma balance_field:
  assumes params: "searchParams_address req = Some address" "address \<noteq> []"
                  "searchParams_amount req = Some expectedAmount" "expectedAmount \<noteq> []"
    and loop: "tryEndpoints rt (network env) (apiEndpoints address (etherscanApiKey env)) None
                 = ((parsed, Some url, lastError), calls)"
    and truthy: "truthy rt parsed"
    and analysed: "analyse rt (clock env) address expectedAmount parsed = Inr a"
    and shaped: "(if truthy rt (prop_of parsed ''result'')
                  then sliceMap rt (prop_of parsed ''result'') else Inr []) = Inr ts"
  shows "\<exists>response. GET_try rt env req = (Inr response, calls @ [(balanceUrl url, balanceHeaders)])"
    and "prop_of (json_body (fst (GET rt env req))) ''balance'' =
           JNum (case fetchBalance rt (network env) url of
                   Inr (Some fresh) \<Rightarrow> fresh
                 | Inr None \<Rightarrow> balance a
                 | Inl balanceError \<Rightarrow> balance a)"
  using report_fields[OF params loop truthy analysed shaped]
  by (auto simp: GET_def refineBalance_Some)

subsection \<open>The concrete inputs, evaluated\<close>

lemma env_at_simps [simp]:
  "network (env_at nt now) = nt" "clock (env_at nt now) = (\<lambda>k. now)"
  "reportTime (env_at nt now) = now" "etherscanApiKey (env_at nt now) = defaultApiKey"
  by (simp_all add: env_at_def etherscanApiKey_def)

lemma endpoints0: "apiEndpoints ''0xabc'' defaultApiKey = [endpoint1, endpoint2]"
  by (simp add: apiEndpoints_def defaultApiKey_def usdtContract_def endpoint1_def endpoint2_def)

lemma balanceUrl_endpoint1: "balanceUrl endpoint1 = balanceEndpoint1"
  by (simp add: balanceUrl_def endpoint1_def balanceEndpoint1_def)

lemma explorer_endpoint1: "explorer a b (endpoint1, hs) = respond a"
  by (simp add: explorer_def endpoint1_def)

lemma explorer_balanceEndpoint1: "explorer a b (balanceEndpoint1, hs) = respond b"
  by (simp add: explorer_def balanceEndpoint1_def)

lemma parse_table [simp]: "JSON_parse (ref_rt table) = parseTable table"
  by (simp add: ref_rt_def)

lemma ref_rt_fields [simp]:
  "Number_parseInt (ref_rt table) = ref_parseInt"
  "Number_parseFloat (ref_rt table) = ref_parseFloat"
  "Math_pow (ref_rt table) = ref_pow"
  "Math_abs (ref_rt table) = ref_abs"
  "num_div (ref_rt table) = ref_div"
  "num_mul (ref_rt table) = ref_mul"
  "num_sub (ref_rt table) = ref_sub"
  "num_add (ref_rt table) = ref_add"
  "num_lt (ref_rt table) = ref_lt"
  "num_lit (ref_rt table) = Fin"
  "num_falsy (ref_rt table) = ref_falsy"
  "Date_time (ref_rt table) = ref_Date_time"
  "toISOString (ref_rt table) = ref_toISOString"
  "toLowerCase (ref_rt table) = ref_toLowerCase"
  "stackTrace (ref_rt table) = (\<lambda>msg. [])"
  by (simp_all add: ref_rt_def)

lemma paidTx_amount: "txAmount (ref_rt table) paidTx = Inr (Fin 1)"
  by code_simp

lemma paidTx_time: "txTime (ref_rt table) paidTx = Inr (Some 1700000000000)"
  by code_simp

lemma paidTx_to: "isToAddress (ref_rt table) ''0xabc'' paidTx = Inr True"
  by code_simp

lemma one_is_expected: "isExpectedAmount (ref_rt table) ''1'' (Fin 1)"
  by code_simp

lemma iso_1700000000000: "ref_toISOString 1700000000000 = ''2023-11-14T22:13:20.000Z''"
  by code_simp

lemma iso_1700000005000: "ref_toISOString 1700000005000 = ''2023-11-14T22:13:25.000Z''"
  by code_simp

lemma paidTx_processed:
  "processTx (ref_rt table) ''0xabc'' ''1'' 1700000005000 paidTx =
     Inr \<lparr>tx_hash = JStr ''0xh1'', tx_from = JStr ''0xf1'', tx_to = JStr ''0xABC'',
          tx_value = Fin 1, tx_timestamp = ''2023-11-14T22:13:20.000Z'',
          tx_confirmations = JStr ''12'', tx_isRecent = True, tx_isToAddress = True,
          tx_isExpectedAmount = True, tx_blockNumber = JStr ''100''\<rparr>"
  by (simp add: processTx_def paidTx_amount paidTx_time paidTx_to one_is_expected isRecent_def
        Date_toISOString_def iso_1700000000000)
     (simp add: paidTx_def)

lemma paidTx_shaped:
  "shapeTx (ref_rt table) paidTx =
     Inr (JObj [(''hash'', JStr ''0xh1''), (''from'', JStr ''0xf1''), (''to'', JStr ''0xABC''),
                (''value'', JNum (Fin 1)), (''timestamp'', JStr ''2023-11-14T22:13:20.000Z''),
                (''confirmations'', JStr ''12'')])"
  using processTx_shapeTx[OF paidTx_processed] by (simp add: shaped_def)

lemma texts_differ: "balanceText \<noteq> paidText" "balanceText \<noteq> limitText"
  by (simp_all add: balanceText_def paidText_def limitText_def)

lemma paid_loop:
  "tryEndpoints paidRt (explorer paidText balanceText) [endpoint1, endpoint2] None =
     ((paidBody, Some endpoint1, None), [(endpoint1, tokentxHeaders)])"
  by (simp add: tryEndpoints.simps tryEndpoint_def explorer_endpoint1 respond_def ok_def paidRt_def
        parseTable_def)

lemma balance_fetched:
  assumes "parseTable table balanceText = Inr balanceBody"
  shows "fetchBalance (ref_rt table) (explorer a balanceText) endpoint1 = Inr (Some (Fin (5 / 2)))"
proof -
  have wei: "ref_parseInt (JStr ''2500000000000000000'') = Inr (Fin 2500000000000000000)"
    by code_simp
  have tokens: "ref_div (Fin 2500000000000000000) (ref_pow (Fin 10) (Fin 18)) = Fin (5 / 2)"
    by code_simp
  show ?thesis
    using assms wei tokens
    by (simp add: fetchBalance_def balanceUrl_endpoint1 explorer_balanceEndpoint1 respond_def ok_def
        balanceBody_def or_else_def)
qed

lemma paid_processTxs:
  "processTxs (ref_rt table) ''0xabc'' ''1'' (\<lambda>k. 1700000005000) 0 [paidTx] = Inr [paidProcessed]"
  by (simp add: processTxs_def enumerate_eq_zip paidTx_processed paidProcessed_def)

lemma paid_analysis:
  "analyse paidRt (\<lambda>k. 1700000005000) ''0xabc'' ''1'' paidBody =
     Inr \<lparr>confirmed = True, matchingTransactions = [paidProcessed], balance = Fin 1,
          apiStatus = paidBody\<rparr>"
proof -
  have "analyse paidRt (\<lambda>k. 1700000005000) ''0xabc'' ''1'' paidBody =
     bindE (processTxs paidRt ''0xabc'' ''1'' (\<lambda>k. 1700000005000) 0 [paidTx]) (\<lambda>processedTxs.
       Inr \<lparr>confirmed =
              (length (filter (\<lambda>p. tx_isRecent p \<and> tx_isToAddress p \<and> tx_isExpectedAmount p)
                        processedTxs) > 0),
            matchingTransactions =
              filter (\<lambda>p. tx_isRecent p \<and> tx_isToAddress p \<and> tx_isExpectedAmount p) processedTxs,
            balance = foldl (\<lambda>sum p. num_add paidRt sum (tx_value p)) (num_lit paidRt 0)
                        (filter tx_isToAddress processedTxs),
            apiStatus = apiStatus_of paidRt paidBody\<rparr>)"
    by (rule analyse_array) (simp_all add: paidBody_def)
  moreover have "apiStatus_of paidRt paidBody = paidBody"
    by (simp add: apiStatus_of_def paidBody_def or_else_def)
  ultimately show ?thesis
    by (simp add: paidRt_def paid_processTxs) (simp add: paidProcessed_def)
qed

lemma paid_run:
  "GET paidRt paidEnv req0 =
     (\<lparr>http_status = 200,
       json_body = JObj
         [(''confirmed'', JBool True),
          (''balance'', JNum (Fin (5 / 2))),
          (''transactions'', JArr [paidShaped]),
          (''apiStatus'', paidBody),
          (''debugInfo'', JObj
             [(''workingEndpoint'', JStr (str_replace endpoint1 defaultApiKey ''***'')),
              (''requestTime'', JStr ''2023-11-14T22:13:25.000Z''),
              (''matchingTransactions'', JArr [processedTx_object paidProcessed]),
              (''expectedAmount'', JNum (Fin 1)),
              (''address'', JStr ''0xabc''),
              (''usdtContract'', JStr usdtContract),
              (''network'', JStr ''BSC''),
              (''environment'', JStr ''Vercel Serverless''),
              (''serverlessOptimized'', JBool True)])]\<rparr>,
      [(endpoint1, tokentxHeaders), (balanceEndpoint1, balanceHeaders)])"
proof -
  have amount: "ref_parseFloat ''1'' = Fin 1"
    by code_simp
  have fetched: "fetchBalance paidRt (explorer paidText balanceText) endpoint1 = Inr (Some (Fin (5 / 2)))"
    unfolding paidRt_def by (rule balance_fetched) (simp add: parseTable_def texts_differ)
  have loop: "tryEndpoints paidRt (network paidEnv) (apiEndpoints ''0xabc'' (etherscanApiKey paidEnv)) None
               = ((paidBody, Some endpoint1, None), [(endpoint1, tokentxHeaders)])"
    by (simp add: paidEnv_def endpoints0 paid_loop)
  have truthy: "truthy paidRt paidBody"
    by (simp add: paidBody_def)
  have analysed: "analyse paidRt (clock paidEnv) ''0xabc'' ''1'' paidBody =
     Inr \<lparr>confirmed = True, matchingTransactions = [paidProcessed], balance = Fin 1,
          apiStatus = paidBody\<rparr>"
    by (simp add: paidEnv_def paid_analysis)
  note checkPayment_analysed[OF loop truthy analysed]
  then have "checkPayment paidRt paidEnv ''0xabc'' ''1'' =
     (Inr \<lparr>http_status = 200,
       json_body = JObj
         [(''confirmed'', JBool True),
          (''balance'', JNum (Fin (5 / 2))),
          (''transactions'', JArr [paidShaped]),
          (''apiStatus'', paidBody),
          (''debugInfo'', JObj
             [(''workingEndpoint'', JStr (str_replace endpoint1 defaultApiKey ''***'')),
              (''requestTime'', JStr ''2023-11-14T22:13:25.000Z''),
              (''matchingTransactions'', JArr [processedTx_object paidProcessed]),
              (''expectedAmount'', JNum (Fin 1)),
              (''address'', JStr ''0xabc''),
              (''usdtContract'', JStr usdtContract),
              (''network'', JStr ''BSC''),
              (''environment'', JStr ''Vercel Serverless''),
              (''serverlessOptimized'', JBool True)])]\<rparr>,
      [(endpoint1, tokentxHeaders), (balanceEndpoint1, balanceHeaders)])"
    apply (simp add: paidEnv_def refineBalance_def fetched balanceUrl_endpoint1 buildResult_def)
    apply (simp add: paidBody_def sliceMap_def)
    apply (simp add: paidRt_def paidTx_shaped paidShaped_def iso_1700000005000 amount)
    done
  then show ?thesis
    by (simp add: GET_def GET_try_def req0_def)
qed

lemma limited_run:
  "GET_try limitRt limitEnv req0 =
     (Inl (Error ''data.result.slice(...).map is not a function'' []),
      [(endpoint1, tokentxHeaders), (balanceEndpoint1, balanceHeaders)])"
proof -
  have loop: "tryEndpoints limitRt (network limitEnv) (apiEndpoints ''0xabc'' (etherscanApiKey limitEnv)) None
               = ((limitBody, Some endpoint1, None), [(endpoint1, tokentxHeaders)])"
    by (simp add: limitEnv_def endpoints0 tryEndpoints.simps tryEndpoint_def explorer_endpoint1
          respond_def ok_def limitRt_def parseTable_def)
  have truthy: "truthy limitRt limitBody"
    by (simp add: limitBody_def)
  have analysed: "analyse limitRt (clock limitEnv) ''0xabc'' ''1'' limitBody =
     Inr \<lparr>confirmed = False, matchingTransactions = [], balance = num_lit limitRt 0,
          apiStatus = apiStatus_of limitRt limitBody\<rparr>"
    by (rule analyse_other) (simp_all add: limitBody_def)
  show ?thesis
    using checkPayment_analysed[OF loop truthy analysed]
    by (simp add: GET_try_def req0_def refineBalance_def balanceUrl_endpoint1 buildResult_def
          get_truthy[OF truthy])
       (simp add: limitBody_def sliceMap_def TypeError_def limitRt_def)
qed

lemma paidTx_processed_at:
  "processTx (ref_rt table) ''0xabc'' ''1'' now paidTx =
     Inr \<lparr>tx_hash = JStr ''0xh1'', tx_from = JStr ''0xf1'', tx_to = JStr ''0xABC'',
          tx_value = Fin 1, tx_timestamp = ''2023-11-14T22:13:20.000Z'',
          tx_confirmations = JStr ''12'', tx_isRecent = (now < 1700003600000),
          tx_isToAddress = True, tx_isExpectedAmount = True, tx_blockNumber = JStr ''100''\<rparr>"
  by (simp add: processTx_def paidTx_amount paidTx_time paidTx_to one_is_expected isRecent_def
        Date_toISOString_def iso_1700000000000)
     (auto simp add: paidTx_def)

lemma farFutureTx_amount: "txAmount (ref_rt table) farFutureTx = Inr (Fin 1)"
  by code_simp

lemma farFutureTx_time: "txTime (ref_rt table) farFutureTx = Inr None"
  by code_simp

lemma farFutureTx_to: "isToAddress (ref_rt table) ''0xabc'' farFutureTx = Inr True"
  by code_simp

lemma farFutureTx_raises:
  "processTx (ref_rt table) ''0xabc'' ''1'' now farFutureTx = Inl (Error ''Invalid time value'' [])"
  by (simp add: processTx_def farFutureTx_amount farFutureTx_time farFutureTx_to
        Date_toISOString_def RangeError_def)
     (simp add: farFutureTx_def)

lemma unreadable_run:
  "GET unreadableRt (env_at (explorer unreadableText balanceText) now) req0 =
     (\<lparr>http_status = 200,
       json_body = failureReport unreadableRt (env_at (explorer unreadableText balanceText) now)
                     (Error ''Invalid time value'' [])\<rparr>,
      [(endpoint1, tokentxHeaders)])"
proof -
  let ?env = "env_at (explorer unreadableText balanceText) now"
  have loop: "tryEndpoints unreadableRt (network ?env) (apiEndpoints ''0xabc'' (etherscanApiKey ?env)) None
               = ((unreadableBody, Some endpoint1, None), [(endpoint1, tokentxHeaders)])"
    by (simp add: endpoints0 tryEndpoints.simps tryEndpoint_def explorer_endpoint1
          respond_def ok_def unreadableRt_def parseTable_def)
  have truthy: "truthy unreadableRt unreadableBody"
    by (simp add: unreadableBody_def)
  have "processTxs unreadableRt ''0xabc'' ''1'' (clock ?env) 0 [paidTx, farFutureTx]
          = Inl (Error ''Invalid time value'' [])"
    by (simp add: processTxs_def enumerate_eq_zip upt_rec unreadableRt_def paidTx_processed_at
          farFutureTx_raises)
  then have raised: "analyse unreadableRt (clock ?env) ''0xabc'' ''1'' unreadableBody
          = Inl (Error ''Invalid time value'' [])"
    by (subst analyse_array[where txs = "[paidTx, farFutureTx]"])
       (simp_all add: unreadableBody_def)
  from checkPayment_raised[OF loop truthy raised]
  show ?thesis
    by (simp add: GET_def GET_try_def req0_def)
qed


lemma paid_no_error: "\<exists>response calls'. GET_try paidRt paidEnv req0 = (Inr response, calls')"
proof -
  have params: "searchParams_address req0 = Some ''0xabc''" "''0xabc'' \<noteq> []"
               "searchParams_amount req0 = Some ''1''" "''1'' \<noteq> []"
    by (simp_all add: req0_def)
  have loop: "tryEndpoints paidRt (network paidEnv) (apiEndpoints ''0xabc'' (etherscanApiKey paidEnv)) None
        = ((paidBody, Some endpoint1, None), [(endpoint1, tokentxHeaders)])"
    by (simp add: paidEnv_def endpoints0 paid_loop)
  have truthy: "truthy paidRt paidBody"
    by (simp add: paidBody_def)
  have analysed: "analyse paidRt (clock paidEnv) ''0xabc'' ''1'' paidBody =
     Inr \<lparr>confirmed = True, matchingTransactions = [paidProcessed], balance = Fin 1,
          apiStatus = paidBody\<rparr>"
    by (simp add: paidEnv_def paid_analysis)
  have shaped: "(if truthy paidRt (prop_of paidBody ''result'')
                  then sliceMap paidRt (prop_of paidBody ''result'') else Inr [])
                = Inr [paidShaped]"
    by (simp add: paidBody_def sliceMap_def paidRt_def paidTx_shaped paidShaped_def)
  from report_fields[OF params loop truthy analysed shaped] show ?thesis
    by blast
qed

lemma emptyMessage_report:
  "\<exists>dbg. GET_try emptyMessageRt emptyMessageEnv req0 =
           (Inr \<lparr>http_status = 200,
                 json_body = JObj
                   [(''confirmed'', JBool False),
                    (''balance'', JNum (Fin (5 / 2))),
                    (''transactions'', JArr []),
                    (''apiStatus'', JObj [(''status'', JStr ''0''),
                                          (''message'', JStr ''Unknown error''),
                                          (''result'', JArr [])]),
                    (''debugInfo'', dbg)]\<rparr>,
            [(endpoint1, tokentxHeaders), (balanceEndpoint1, balanceHeaders)])"
proof -
  have params: "searchParams_address req0 = Some ''0xabc''" "''0xabc'' \<noteq> []"
               "searchParams_amount req0 = Some ''1''" "''1'' \<noteq> []"
    by (simp_all add: req0_def)
  have loop: "tryEndpoints emptyMessageRt (network emptyMessageEnv)
                (apiEndpoints ''0xabc'' (etherscanApiKey emptyMessageEnv)) None
        = ((emptyMessageBody, Some endpoint1, None), [(endpoint1, tokentxHeaders)])"
    by (simp add: emptyMessageEnv_def endpoints0 tryEndpoints.simps tryEndpoint_def
          explorer_endpoint1 respond_def ok_def emptyMessageRt_def parseTable_def)
  have truthy: "truthy emptyMessageRt emptyMessageBody"
    by (simp add: emptyMessageBody_def)
  have analysed: "analyse emptyMessageRt (clock emptyMessageEnv) ''0xabc'' ''1'' emptyMessageBody =
     Inr \<lparr>confirmed = False, matchingTransactions = [], balance = num_lit emptyMessageRt 0,
          apiStatus = apiStatus_of emptyMessageRt emptyMessageBody\<rparr>"
    by (rule analyse_other) (simp_all add: emptyMessageBody_def)
  have shaped: "(if truthy emptyMessageRt (prop_of emptyMessageBody ''result'')
                  then sliceMap emptyMessageRt (prop_of emptyMessageBody ''result'') else Inr [])
                = Inr []"
    by (simp add: emptyMessageBody_def sliceMap_def)
  have texts: "balanceText \<noteq> emptyMessageText"
    by (simp add: balanceText_def emptyMessageText_def)
  have fetched: "fetchBalance emptyMessageRt (network emptyMessageEnv) endpoint1
                   = Inr (Some (Fin (5 / 2)))"
    unfolding emptyMessageRt_def emptyMessageEnv_def env_at_simps
    by (rule balance_fetched) (simp add: parseTable_def texts)
  have api: "apiStatus_of emptyMessageRt emptyMessageBody =
               JObj [(''status'', JStr ''0''), (''message'', JStr ''Unknown error''),
                     (''result'', JArr [])]"
    by (simp add: apiStatus_of_def emptyMessageBody_def or_else_def)
  from report_fields[OF params loop truthy analysed shaped] show ?thesis
    by (simp add: refineBalance_Some fetched api balanceUrl_endpoint1)
qed

lemma nullElement_run:
  "GET nullElementRt nullElementEnv req0 =
     (\<lparr>http_status = 200,
       json_body = failureReport nullElementRt nullElementEnv
                     (Error ''Cannot read properties of null (reading 'hash')'' [])\<rparr>,
      [(endpoint1, tokentxHeaders), (balanceEndpoint1, balanceHeaders)])"
proof -
  have loop: "tryEndpoints nullElementRt (network nullElementEnv)
                (apiEndpoints ''0xabc'' (etherscanApiKey nullElementEnv)) None
        = ((nullElementBody, Some endpoint1, None), [(endpoint1, tokentxHeaders)])"
    by (simp add: nullElementEnv_def endpoints0 tryEndpoints.simps tryEndpoint_def
          explorer_endpoint1 respond_def ok_def nullElementRt_def parseTable_def)
  have truthy: "truthy nullElementRt nullElementBody"
    by (simp add: nullElementBody_def)
  have analysed: "analyse nullElementRt (clock nullElementEnv) ''0xabc'' ''1'' nullElementBody =
     Inr \<lparr>confirmed = False, matchingTransactions = [], balance = num_lit nullElementRt 0,
          apiStatus = apiStatus_of nullElementRt nullElementBody\<rparr>"
    by (rule analyse_other) (simp_all add: nullElementBody_def)
  have raised: "sliceMap nullElementRt (JArr [JNull])
                  = Inl (Error ''Cannot read properties of null (reading 'hash')'' [])"
    by (simp add: sliceMap_def shapeTx_def get_def TypeError_def quoted_def nullElementRt_def)
  from checkPayment_analysed[OF loop truthy analysed] raised show ?thesis
    by (simp add: GET_def GET_try_def req0_def buildResult_def get_truthy[OF truthy]
          refineBalance_Some balanceUrl_endpoint1)
       (simp add: nullElementBody_def)
qed

lemma refusing_endpoint1: "refusing a (endpoint1, hs) = respond a"
  by (simp add: refusing_def endpoint1_def)

lemma refusing_balanceEndpoint1:
  "refusing a (balanceEndpoint1, hs) = Rejected (Error ''fetch failed'' [])"
  by (simp add: refusing_def balanceEndpoint1_def)

lemma paidTx_props:
  "prop_of paidTx ''to'' = JStr ''0xABC''"
  "prop_of paidTx ''value'' = JStr ''1000000000000000000''"
  "prop_of paidTx ''tokenDecimal'' = JStr ''18''"
  "prop_of paidTx ''timeStamp'' = JStr ''1700000000''"
  by (simp_all add: paidTx_def)

lemma strangerTx_props:
  "prop_of strangerTx ''to'' = JStr ''0xdef''"
  "prop_of strangerTx ''value'' = JStr ''5000000000000000000''"
  "prop_of strangerTx ''tokenDecimal'' = JStr ''18''"
  "prop_of strangerTx ''timeStamp'' = JStr ''1700000001''"
  by (simp_all add: strangerTx_def)

lemma oldTx_props:
  "prop_of oldTx ''to'' = JStr ''0xabc''"
  "prop_of oldTx ''value'' = JStr ''2000000000000000000''"
  "prop_of oldTx ''tokenDecimal'' = JStr ''18''"
  "prop_of oldTx ''timeStamp'' = JStr ''1600000000''"
  by (simp_all add: oldTx_def)

lemma farFutureTx_props:
  "prop_of farFutureTx ''to'' = JStr ''0xABC''"
  "prop_of farFutureTx ''value'' = JStr ''1000000000000000000''"
  "prop_of farFutureTx ''tokenDecimal'' = JStr ''18''"
  "prop_of farFutureTx ''timeStamp'' = JStr ''9999999999999''"
  by (simp_all add: farFutureTx_def)

lemma units_parsed:
  "ref_parseInt_string ''1000000000000000000'' = Fin 1000000000000000000"
  "ref_parseInt_string ''2000000000000000000'' = Fin 2000000000000000000"
  "ref_parseInt_string ''5000000000000000000'' = Fin 5000000000000000000"
  "ref_parseInt_string ''18'' = Fin 18"
  by code_simp+

lemma seconds_parsed:
  "ref_parseInt_string ''1700000000'' = Fin 1700000000"
  "ref_parseInt_string ''1700000001'' = Fin 1700000001"
  "ref_parseInt_string ''1600000000'' = Fin 1600000000"
  "ref_parseInt_string ''9999999999999'' = Fin 9999999999999"
  by code_simp+

lemma dates:
  "ref_Date_time (Fin 1700000000000) = Some 1700000000000"
  "ref_Date_time (Fin 1700000001000) = Some 1700000001000"
  "ref_Date_time (Fin 1600000000000) = Some 1600000000000"
  "ref_Date_time (Fin 9999999999999000) = None"
  by code_simp+

lemma lowered:
  "ref_toLowerCase ''0xABC'' = ''0xabc''"
  "ref_toLowerCase ''0xabc'' = ''0xabc''"
  "ref_toLowerCase ''0xdef'' = ''0xdef''"
  by code_simp+

lemma tokens:
  "ref_div (Fin 1000000000000000000) (ref_pow (Fin 10) (Fin 18)) = Fin 1"
  "ref_div (Fin 2000000000000000000) (ref_pow (Fin 10) (Fin 18)) = Fin 2"
  "ref_div (Fin 5000000000000000000) (ref_pow (Fin 10) (Fin 18)) = Fin 5"
  by code_simp+

lemma within_tolerance:
  "ref_lt (ref_abs (ref_sub (Fin 1) (ref_parseFloat ''1''))) (Fin (1 / 1000))"
  by code_simp

lemma refused_loop:
  "tryEndpoints paidRt (refusing paidText) [endpoint1, endpoint2] None =
     ((paidBody, Some endpoint1, None), [(endpoint1, tokentxHeaders)])"
  by (simp add: tryEndpoints.simps tryEndpoint_def refusing_endpoint1 respond_def ok_def paidRt_def
        parseTable_def)

lemma paid_shaped:
  "(if truthy paidRt (prop_of paidBody ''result'')
    then sliceMap paidRt (prop_of paidBody ''result'') else Inr []) = Inr [paidShaped]"
  by (simp add: paidBody_def sliceMap_def paidRt_def paidTx_shaped paidShaped_def)

section \<open>The claims\<close>

subsection \<open>C9: missing parameters\<close>

text \<open>
  Claim C9. For every request where the address query parameter or the amount query
  parameter is absent or empty, the handler returns HTTP 400 with \<^verbatim>\<open>confirmed: false\<close>
  and a \<^verbatim>\<open>debugInfo\<close> that echoes the address and the amount it received, and it issues
  no outbound call.
\<close>

theorem missing_parameter_gives_400:
  assumes "searchParams_address req = None \<or> searchParams_address req = Some []
           \<or> searchParams_amount req = None \<or> searchParams_amount req = Some []"
  shows "http_status (fst (GET rt env req)) = 400
         \<and> prop_of (json_body (fst (GET rt env req))) ''confirmed'' = JBool False
         \<and> prop_of (prop_of (json_body (fst (GET rt env req))) ''debugInfo'') ''address''
             = nullable (searchParams_address req)
         \<and> prop_of (prop_of (json_body (fst (GET rt env req))) ''debugInfo'') ''expectedAmount''
             = nullable (searchParams_amount req)
         \<and> snd (GET rt env req) = []"
proof -
  have "GET_try rt env req
          = (Inr (missingParameters (searchParams_address req) (searchParams_amount req)), [])"
    using assms by (auto simp: GET_try_def split: option.splits)
  then show ?thesis
    by (simp add: GET_def missingParameters_def)
qed

text \<open>The amount is absent: the address is echoed, the amount is \<^verbatim>\<open>null\<close>.\<close>

theorem missing_parameter_gives_400_witness:
  "searchParams_amount \<lparr>searchParams_address = Some ''0xabc'', searchParams_amount = None\<rparr> = None
   \<and> GET (ref_rt []) (env_at (\<lambda>call. Rejected NonError) 0)
         \<lparr>searchParams_address = Some ''0xabc'', searchParams_amount = None\<rparr>
       = (\<lparr>http_status = 400,
           json_body = JObj
             [(''error'', JStr ''Missing parameters''),
              (''confirmed'', JBool False),
              (''debugInfo'', JObj
                 [(''error'', JStr ''Missing address or amount parameter''),
                  (''address'', JStr ''0xabc''),
                  (''expectedAmount'', JNull)])]\<rparr>, [])"
  using missing_parameter_gives_400
    [of "\<lparr>searchParams_address = Some ''0xabc'', searchParams_amount = None\<rparr>"
        "ref_rt []" "env_at (\<lambda>call. Rejected NonError) 0"]
  by (simp add: GET_def GET_try_def missingParameters_def nullable_def)

subsection \<open>C6: the handler of last resort\<close>

text \<open>
  Claim C6. Any uncaught error during the flow is caught exactly once at the top and
  reported as HTTP 200 with \<^verbatim>\<open>confirmed: false\<close>, \<^verbatim>\<open>balance: 0\<close>,
  \<^verbatim>\<open>transactions: []\<close>, and \<^verbatim>\<open>manualMode\<close> true if and only if the error's message
  mentions \<^verbatim>\<open>fetch failed\<close>, \<^verbatim>\<open>ENOTFOUND\<close> or \<^verbatim>\<open>timeout\<close>; no error other than
  the missing-parameter case is ever surfaced as a non-200 HTTP status.

  The status is 400 exactly when a parameter is missing and 200 otherwise. Whatever the
  \<^verbatim>\<open>try\<close> block raises, the handler answers with the failure report for it. A thrown
  value that is not an \<^verbatim>\<open>Error\<close> has no message and gives \<^verbatim>\<open>manualMode: false\<close>.
\<close>

theorem uncaught_error_is_reported_with_200:
  "http_status (fst (GET rt env req)) =
     (if (\<exists>address expectedAmount.
            searchParams_address req = Some address \<and> address \<noteq> []
            \<and> searchParams_amount req = Some expectedAmount \<and> expectedAmount \<noteq> [])
      then 200 else 400)
   \<and> (\<forall>err calls. GET_try rt env req = (Inl err, calls) \<longrightarrow>
         GET rt env req = (\<lparr>http_status = 200, json_body = failureReport rt env err\<rparr>, calls)
         \<and> prop_of (failureReport rt env err) ''confirmed'' = JBool False
         \<and> prop_of (failureReport rt env err) ''balance'' = JNum (num_lit rt 0)
         \<and> prop_of (failureReport rt env err) ''transactions'' = JArr []
         \<and> prop_of (failureReport rt env err) ''manualMode'' =
             JBool (\<exists>msg stk. err = Error msg stk
                      \<and> (str_includes msg ''fetch failed'' \<or> str_includes msg ''ENOTFOUND''
                          \<or> str_includes msg ''timeout'')))"
proof (intro conjI allI impI)
  show "http_status (fst (GET rt env req)) =
     (if (\<exists>address expectedAmount.
            searchParams_address req = Some address \<and> address \<noteq> []
            \<and> searchParams_amount req = Some expectedAmount \<and> expectedAmount \<noteq> [])
      then 200 else 400)"
  proof (cases "\<exists>address expectedAmount.
            searchParams_address req = Some address \<and> address \<noteq> []
            \<and> searchParams_amount req = Some expectedAmount \<and> expectedAmount \<noteq> []")
    case True
    then obtain address expectedAmount where
      "GET_try rt env req = checkPayment rt env address expectedAmount"
      using GET_try_present by blast
    then have "http_status (fst (GET rt env req)) = 200"
      by (cases "checkPayment rt env address expectedAmount")
         (auto simp: GET_def dest: checkPayment_status split: sum.splits)
    with True show ?thesis by simp
  next
    case False
    then have "GET_try rt env req
          = (Inr (missingParameters (searchParams_address req) (searchParams_amount req)), [])"
      by (auto simp: GET_try_def split: option.splits)
    with False show ?thesis
      by (simp add: GET_def missingParameters_def)
  qed
next
  fix err calls
  assume "GET_try rt env req = (Inl err, calls)"
  then show "GET rt env req = (\<lparr>http_status = 200, json_body = failureReport rt env err\<rparr>, calls)"
    by (simp add: GET_def)
next
  fix err :: thrown
  show "prop_of (failureReport rt env err) ''confirmed'' = JBool False"
    by (simp add: failureReport_fields)
  show "prop_of (failureReport rt env err) ''balance'' = JNum (num_lit rt 0)"
    by (simp add: failureReport_fields)
  show "prop_of (failureReport rt env err) ''transactions'' = JArr []"
    by (simp add: failureReport_fields)
  show "prop_of (failureReport rt env err) ''manualMode'' =
             JBool (\<exists>msg stk. err = Error msg stk
                      \<and> (str_includes msg ''fetch failed'' \<or> str_includes msg ''ENOTFOUND''
                          \<or> str_includes msg ''timeout''))"
    by (cases err) (simp_all add: failureReport_fields isNetworkError_def)
qed

text \<open>
  The rate-limited explorer: its \<^verbatim>\<open>result\<close> is a string, line 215 raises, and the
  message of that error holds none of the three keywords.
\<close>

theorem uncaught_error_is_reported_with_200_witness:
  "GET_try limitRt limitEnv req0 =
     (Inl (Error ''data.result.slice(...).map is not a function'' []),
      [(endpoint1, tokentxHeaders), (balanceEndpoint1, balanceHeaders)])
   \<and> GET limitRt limitEnv req0 =
       (\<lparr>http_status = 200,
         json_body = failureReport limitRt limitEnv
                       (Error ''data.result.slice(...).map is not a function'' [])\<rparr>,
        [(endpoint1, tokentxHeaders), (balanceEndpoint1, balanceHeaders)])
   \<and> prop_of (failureReport limitRt limitEnv
                (Error ''data.result.slice(...).map is not a function'' [])) ''manualMode''
       = JBool False"
proof -
  have no_keyword:
    "\<not> str_includes ''data.result.slice(...).map is not a function'' ''fetch failed''"
    "\<not> str_includes ''data.result.slice(...).map is not a function'' ''ENOTFOUND''"
    "\<not> str_includes ''data.result.slice(...).map is not a function'' ''timeout''"
    by simp_all
  show ?thesis
    using uncaught_error_is_reported_with_200[of limitRt limitEnv req0] limited_run no_keyword
    by simp
qed

subsection \<open>C2: manual verification mode\<close>

text \<open>
  Claim C2. For every request with both parameters present, the manual-mode report is
  returned if and only if every candidate endpoint fails by network or transport error,
  non-success HTTP status, or JSON parse failure; the first endpoint whose body parses as
  JSON stops the iteration and leads to the normal report.

  The code does not do this. The first endpoint answers with status 200 and the body
  \<^verbatim>\<open>null\<close>, which is JSON: the iteration stops there (\<open>Parsed\<close>), the second endpoint
  is never called, and yet line 99, \<^verbatim>\<open>if (!data)\<close>, takes the parsed \<^verbatim>\<open>null\<close> for
  "no data" and returns the manual-mode report, whose message says that all endpoints
  failed with last error \<^verbatim>\<open>null\<close>.
\<close>

theorem null_body_gives_manual_mode:
  "tryEndpoint nullRt (network nullEnv) endpoint1 = Parsed JNull
   \<and> GET nullRt nullEnv req0 =
       (\<lparr>http_status = 200,
         json_body = manualReport nullRt nullEnv ''0xabc'' defaultApiKey None\<rparr>,
        [(endpoint1, tokentxHeaders)])
   \<and> prop_of (manualReport nullRt nullEnv ''0xabc'' defaultApiKey None) ''manualMode'' = JBool True
   \<and> prop_of (prop_of (manualReport nullRt nullEnv ''0xabc'' defaultApiKey None) ''apiStatus'')
        ''message'' = JStr ''All API endpoints failed. Last error: null''"
proof -
  have first: "tryEndpoint nullRt (network nullEnv) endpoint1 = Parsed JNull"
    by (simp add: nullEnv_def tryEndpoint_def explorer_endpoint1 respond_def ok_def nullRt_def
          parseTable_def)
  then have loop: "tryEndpoints nullRt (network nullEnv) (apiEndpoints ''0xabc'' (etherscanApiKey nullEnv)) None
               = ((JNull, Some endpoint1, None), [(endpoint1, tokentxHeaders)])"
    by (simp add: nullEnv_def endpoints0 tryEndpoints.simps)
  have "GET_try nullRt nullEnv req0 = checkPayment nullRt nullEnv ''0xabc'' ''1''"
    by (simp add: GET_try_def req0_def)
  with checkPayment_manual[OF loop, where expectedAmount = "''1''"]
  have "GET nullRt nullEnv req0 =
       (\<lparr>http_status = 200,
         json_body = manualReport nullRt nullEnv ''0xabc'' defaultApiKey None\<rparr>,
        [(endpoint1, tokentxHeaders)])"
    by (simp add: GET_def nullEnv_def)
  with first show ?thesis
    by (simp add: manualReport_def)
qed

subsection \<open>C4: the URL of the balance call\<close>

text \<open>
  Claim C4. Whenever the transfer-history fetch succeeded on some endpoint, the secondary
  balance request is issued to that same host's token-balance query for the same
  requested address and is keyed by the same API key as the transfer-history request.

  The code does not do this. Line 182 cuts the working URL at \<^verbatim>\<open>&page=\<close>, and the
  \<^verbatim>\<open>apikey\<close> parameter stands after it: the balance call goes to the same host, for
  the same contract and address, and carries no API key. For every address and every
  key, the balance URL of either endpoint does not depend on the key at all; the run
  below shows the two calls of one invocation.
\<close>

theorem balance_call_carries_no_key:
  "map balanceUrl (apiEndpoints address apiKey) =
     [''https://api.bscscan.com/api?module=account&action=tokenbalance&contractaddress=''
        @ usdtContract @ ''&address='' @ split_head address ''&page='' @ ''&tag=latest'',
      ''https://api-bsc.etherscan.io/api?module=account&action=tokenbalance&contractaddress=''
        @ usdtContract @ ''&address='' @ split_head address ''&page='' @ ''&tag=latest'']
   \<and> snd (GET paidRt paidEnv req0) =
     [(''https://api.bscscan.com/api?module=account&action=tokentx&contractaddress=0x55d398326f99059fF775485246999027B3197955&address=0xabc&page=1&offset=20&sort=desc&apikey=YMURRBM3WND7ZIJM8S1C5HEQXQK6W4S45B'',
       tokentxHeaders),
      (''https://api.bscscan.com/api?module=account&action=tokenbalance&contractaddress=0x55d398326f99059fF775485246999027B3197955&address=0xabc&tag=latest'',
       balanceHeaders)]
   \<and> \<not> str_includes (fst (snd (GET paidRt paidEnv req0) ! 1)) ''apikey''
   \<and> \<not> str_includes (fst (snd (GET paidRt paidEnv req0) ! 1)) (etherscanApiKey paidEnv)"
proof -
  have calls: "snd (GET paidRt paidEnv req0) =
                 [(endpoint1, tokentxHeaders), (balanceEndpoint1, balanceHeaders)]"
    by (simp add: paid_run)
  have "\<not> str_includes balanceEndpoint1 ''apikey''"
    by (simp add: balanceEndpoint1_def)
  moreover have "\<not> str_includes balanceEndpoint1 (etherscanApiKey paidEnv)"
    by (simp add: paidEnv_def) (simp add: balanceEndpoint1_def defaultApiKey_def)
  moreover have "[(endpoint1, tokentxHeaders), (balanceEndpoint1, balanceHeaders)] =
     [(''https://api.bscscan.com/api?module=account&action=tokentx&contractaddress=0x55d398326f99059fF775485246999027B3197955&address=0xabc&page=1&offset=20&sort=desc&apikey=YMURRBM3WND7ZIJM8S1C5HEQXQK6W4S45B'',
       tokentxHeaders),
      (''https://api.bscscan.com/api?module=account&action=tokenbalance&contractaddress=0x55d398326f99059fF775485246999027B3197955&address=0xabc&tag=latest'',
       balanceHeaders)]"
    by (simp add: endpoint1_def balanceEndpoint1_def)
  ultimately show ?thesis
    unfolding calls by (simp add: balanceUrl_of_endpoints)
qed

subsection \<open>C1: when a payment is confirmed\<close>

text \<open>
  Claim C1. For every request with both parameters present, when the first successfully
  parsed upstream body has status \<^verbatim>\<open>"1"\<close> and an array result, the report's
  \<^verbatim>\<open>confirmed\<close> field is true if and only if at least one transaction satisfies all
  three derived booleans: \<^verbatim>\<open>isRecent\<close>, \<^verbatim>\<open>isToAddress\<close> and \<^verbatim>\<open>isExpectedAmount\<close>.

  As amended: under the same conditions the report has status 200, and its
  \<^verbatim>\<open>confirmed\<close> field is true if and only if every transaction of the result can be
  processed and at least one of them satisfies the three booleans. Both conditions are
  stated on the upstream transactions and the built-ins alone.
  \<^item> A transaction can be processed when its \<^verbatim>\<open>to\<close> is a string,
    \<^verbatim>\<open>Number.parseInt\<close> returns on its \<^verbatim>\<open>value\<close>, its \<^verbatim>\<open>tokenDecimal\<close> and its
    \<^verbatim>\<open>timeStamp\<close>, and the seconds of the \<^verbatim>\<open>timeStamp\<close> times 1000 give a valid date.
  \<^item> Transaction \<open>k\<close> satisfies the three booleans when its lower-cased \<^verbatim>\<open>to\<close> equals
    the lower-cased address, the absolute difference between its units divided by 10 to
    the power of its decimals and \<^verbatim>\<open>Number.parseFloat\<close> of the requested amount is
    below 0.001, and its date is valid and less than 3600000 milliseconds before the
    reading of the clock taken for it.

  So a single transaction that cannot be processed makes \<^verbatim>\<open>confirmed\<close> false,
  whatever the other transactions are.
\<close>

theorem confirmed_iff_a_transaction_matches:
  assumes "searchParams_address req = Some address" and "address \<noteq> []"
      and "searchParams_amount req = Some expectedAmount" and "expectedAmount \<noteq> []"
      and "tryEndpoints rt (network env) (apiEndpoints address (etherscanApiKey env)) None
             = ((parsed, workingEndpoint, lastError), calls)"
      and "prop_of parsed ''status'' = JStr ''1''"
      and "prop_of parsed ''result'' = JArr txs"
  shows "http_status (fst (GET rt env req)) = 200
     \<and> prop_of (json_body (fst (GET rt env req))) ''confirmed'' =
         JBool ((\<forall>tx\<in>set txs.
                    (\<exists>s. prop_of tx ''to'' = JStr s)
                  \<and> (\<exists>units. Number_parseInt rt (prop_of tx ''value'') = Inr units)
                  \<and> (\<exists>decimals. Number_parseInt rt (prop_of tx ''tokenDecimal'') = Inr decimals)
                  \<and> (\<exists>seconds t. Number_parseInt rt (prop_of tx ''timeStamp'') = Inr seconds
                         \<and> Date_time rt (num_mul rt seconds (num_lit rt 1000)) = Some t))
              \<and> (\<exists>k<length txs. \<exists>s units decimals seconds t.
                    prop_of (txs ! k) ''to'' = JStr s \<and> toLowerCase rt s = toLowerCase rt address
                  \<and> Number_parseInt rt (prop_of (txs ! k) ''value'') = Inr units
                  \<and> Number_parseInt rt (prop_of (txs ! k) ''tokenDecimal'') = Inr decimals
                  \<and> num_lt rt
                        (Math_abs rt
                           (num_sub rt (num_div rt units (Math_pow rt (num_lit rt 10) decimals))
                              (Number_parseFloat rt expectedAmount)))
                        (num_lit rt (1 / 1000))
                  \<and> Number_parseInt rt (prop_of (txs ! k) ''timeStamp'') = Inr seconds
                  \<and> Date_time rt (num_mul rt seconds (num_lit rt 1000)) = Some t
                  \<and> clock env k - t < 3600000))"
  using assms by (rule confirmed_in_primitives)

text \<open>One transfer of the requested amount to the requested address, five seconds old.\<close>

theorem confirmed_iff_a_transaction_matches_witness:
  "searchParams_address req0 = Some ''0xabc'' \<and> searchParams_amount req0 = Some ''1''
   \<and> tryEndpoints paidRt (network paidEnv) (apiEndpoints ''0xabc'' (etherscanApiKey paidEnv)) None
        = ((paidBody, Some endpoint1, None), [(endpoint1, tokentxHeaders)])
   \<and> prop_of paidBody ''status'' = JStr ''1''
   \<and> prop_of paidBody ''result'' = JArr [paidTx]
   \<and> prop_of paidTx ''to'' = JStr ''0xABC''
   \<and> toLowerCase paidRt ''0xABC'' = toLowerCase paidRt ''0xabc''
   \<and> Number_parseInt paidRt (prop_of paidTx ''value'') = Inr (Fin 1000000000000000000)
   \<and> Number_parseInt paidRt (prop_of paidTx ''tokenDecimal'') = Inr (Fin 18)
   \<and> num_lt paidRt
        (Math_abs paidRt
           (num_sub paidRt
              (num_div paidRt (Fin 1000000000000000000) (Math_pow paidRt (num_lit paidRt 10) (Fin 18)))
              (Number_parseFloat paidRt ''1'')))
        (num_lit paidRt (1 / 1000))
   \<and> Number_parseInt paidRt (prop_of paidTx ''timeStamp'') = Inr (Fin 1700000000)
   \<and> Date_time paidRt (num_mul paidRt (Fin 1700000000) (num_lit paidRt 1000)) = Some 1700000000000
   \<and> clock paidEnv 0 - 1700000000000 < 3600000
   \<and> http_status (fst (GET paidRt paidEnv req0)) = 200
   \<and> prop_of (json_body (fst (GET paidRt paidEnv req0))) ''confirmed'' = JBool True"
proof -
  have params: "searchParams_address req0 = Some ''0xabc''" "''0xabc'' \<noteq> []"
               "searchParams_amount req0 = Some ''1''" "''1'' \<noteq> []"
    by (simp_all add: req0_def)
  have loop: "tryEndpoints paidRt (network paidEnv) (apiEndpoints ''0xabc'' (etherscanApiKey paidEnv)) None
        = ((paidBody, Some endpoint1, None), [(endpoint1, tokentxHeaders)])"
    by (simp add: paidEnv_def endpoints0 paid_loop)
  have status: "prop_of paidBody ''status'' = JStr ''1''"
    and result: "prop_of paidBody ''result'' = JArr [paidTx]"
    by (simp_all add: paidBody_def)
  have recipient: "prop_of paidTx ''to'' = JStr ''0xABC''"
    and lower: "toLowerCase paidRt ''0xABC'' = toLowerCase paidRt ''0xabc''"
    and units: "Number_parseInt paidRt (prop_of paidTx ''value'') = Inr (Fin 1000000000000000000)"
    and decimals: "Number_parseInt paidRt (prop_of paidTx ''tokenDecimal'') = Inr (Fin 18)"
    and seconds: "Number_parseInt paidRt (prop_of paidTx ''timeStamp'') = Inr (Fin 1700000000)"
    and date: "Date_time paidRt (num_mul paidRt (Fin 1700000000) (num_lit paidRt 1000))
                 = Some 1700000000000"
    and age: "clock paidEnv 0 - 1700000000000 < 3600000"
    by (simp_all add: paidTx_props paidRt_def paidEnv_def units_parsed seconds_parsed dates lowered)
  have amount: "num_lt paidRt
        (Math_abs paidRt
           (num_sub paidRt
              (num_div paidRt (Fin 1000000000000000000) (Math_pow paidRt (num_lit paidRt 10) (Fin 18)))
              (Number_parseFloat paidRt ''1'')))
        (num_lit paidRt (1 / 1000))"
    by (simp add: paidRt_def tokens within_tolerance)
  have readable: "\<forall>tx\<in>set [paidTx].
                    (\<exists>s. prop_of tx ''to'' = JStr s)
                  \<and> (\<exists>units. Number_parseInt paidRt (prop_of tx ''value'') = Inr units)
                  \<and> (\<exists>decimals. Number_parseInt paidRt (prop_of tx ''tokenDecimal'') = Inr decimals)
                  \<and> (\<exists>seconds t. Number_parseInt paidRt (prop_of tx ''timeStamp'') = Inr seconds
                         \<and> Date_time paidRt (num_mul paidRt seconds (num_lit paidRt 1000)) = Some t)"
    using recipient units decimals seconds date by (simp del: prop_of.simps)
  have matching: "\<exists>k<length [paidTx]. \<exists>s units decimals seconds t.
                    prop_of ([paidTx] ! k) ''to'' = JStr s
                  \<and> toLowerCase paidRt s = toLowerCase paidRt ''0xabc''
                  \<and> Number_parseInt paidRt (prop_of ([paidTx] ! k) ''value'') = Inr units
                  \<and> Number_parseInt paidRt (prop_of ([paidTx] ! k) ''tokenDecimal'') = Inr decimals
                  \<and> num_lt paidRt
                        (Math_abs paidRt
                           (num_sub paidRt
                              (num_div paidRt units (Math_pow paidRt (num_lit paidRt 10) decimals))
                              (Number_parseFloat paidRt ''1'')))
                        (num_lit paidRt (1 / 1000))
                  \<and> Number_parseInt paidRt (prop_of ([paidTx] ! k) ''timeStamp'') = Inr seconds
                  \<and> Date_time paidRt (num_mul paidRt seconds (num_lit paidRt 1000)) = Some t
                  \<and> clock paidEnv k - t < 3600000"
    using recipient lower units decimals amount seconds date age
    by (intro exI[of _ 0]) (simp del: prop_of.simps)
  note both = conjI[OF readable matching]
  from confirmed_iff_a_transaction_matches[OF params loop status result]
  have "http_status (fst (GET paidRt paidEnv req0)) = 200
     \<and> prop_of (json_body (fst (GET paidRt paidEnv req0))) ''confirmed'' = JBool True"
    unfolding eqTrueI[OF both] .
  with params loop status result recipient lower units decimals amount seconds date age
  show ?thesis
    by (simp only: simp_thms)
qed

text \<open>
  The claim as stated fails. The explorer lists two transfers. The first satisfies all
  three booleans. The second has every field the explorer's format asks for, but its
  \<^verbatim>\<open>timeStamp\<close>, 9999999999999 seconds, is beyond the range of \<^verbatim>\<open>Date\<close>:
  \<^verbatim>\<open>toISOString\<close> raises a \<^verbatim>\<open>RangeError\<close> on line 158, the \<^verbatim>\<open>catch\<close> of line 240
  takes over, and the report says \<^verbatim>\<open>confirmed: false\<close>.
\<close>

theorem unreadable_transaction_hides_a_match:
  "tryEndpoints unreadableRt (explorer unreadableText balanceText) [endpoint1, endpoint2] None
     = ((unreadableBody, Some endpoint1, None), [(endpoint1, tokentxHeaders)])
   \<and> prop_of unreadableBody ''status'' = JStr ''1''
   \<and> prop_of unreadableBody ''result'' = JArr [paidTx, farFutureTx]
   \<and> txTime unreadableRt paidTx = Inr (Some 1700000000000)
   \<and> isRecent 1700000005000 (Some 1700000000000)
   \<and> isToAddress unreadableRt ''0xabc'' paidTx = Inr True
   \<and> txAmount unreadableRt paidTx = Inr (Fin 1)
   \<and> isExpectedAmount unreadableRt ''1'' (Fin 1)
   \<and> prop_of (json_body (fst (GET unreadableRt
                (env_at (explorer unreadableText balanceText) 1700000005000) req0))) ''confirmed''
       = JBool False"
proof -
  have "tryEndpoints unreadableRt (explorer unreadableText balanceText) [endpoint1, endpoint2] None
     = ((unreadableBody, Some endpoint1, None), [(endpoint1, tokentxHeaders)])"
    by (simp add: tryEndpoints.simps tryEndpoint_def explorer_endpoint1
          respond_def ok_def unreadableRt_def parseTable_def)
  moreover have "prop_of unreadableBody ''status'' = JStr ''1''"
    "prop_of unreadableBody ''result'' = JArr [paidTx, farFutureTx]"
    by (simp_all add: unreadableBody_def)
  moreover have "isRecent 1700000005000 (Some 1700000000000)"
    by (simp add: isRecent_def)
  moreover have "prop_of (json_body (fst (GET unreadableRt
                (env_at (explorer unreadableText balanceText) 1700000005000) req0))) ''confirmed''
       = JBool False"
    by (simp add: unreadable_run failureReport_fields)
  ultimately show ?thesis
    by (simp add: unreadableRt_def paidTx_time paidTx_to paidTx_amount one_is_expected)
qed

subsection \<open>C8: the balance derived from the transfers\<close>

text \<open>
  Claim C8. When the upstream body has status \<^verbatim>\<open>"1"\<close> and an array result, the
  transfer-derived balance (before any refinement) equals the sum of value divided by
  \<open>10^tokenDecimal\<close> over exactly those transactions whose \<^verbatim>\<open>to\<close> field matches the
  requested address case-insensitively, regardless of recency or amount.

  As amended: under the same conditions, when every transaction of the result can be
  processed (its \<^verbatim>\<open>to\<close> is a string, \<^verbatim>\<open>Number.parseInt\<close> returns on its
  \<^verbatim>\<open>value\<close>, its \<^verbatim>\<open>tokenDecimal\<close> and its \<^verbatim>\<open>timeStamp\<close>, and the seconds of the
  \<^verbatim>\<open>timeStamp\<close> times 1000 give a valid date), lines 132 to 177 complete and leave in
  the variable \<^verbatim>\<open>balance\<close> the sum, taken from the left and starting at 0, of the
  units divided by 10 to the power of the decimals, over exactly the transactions whose
  lower-cased \<^verbatim>\<open>to\<close> equals the lower-cased address. When some transaction cannot be
  processed, those lines raise and leave no balance.
\<close>

theorem transfer_balance_sums_incoming_amounts:
  assumes "prop_of parsed ''status'' = JStr ''1''"
      and "prop_of parsed ''result'' = JArr txs"
  shows "((\<forall>tx\<in>set txs.
              (\<exists>s. prop_of tx ''to'' = JStr s)
            \<and> (\<exists>units. Number_parseInt rt (prop_of tx ''value'') = Inr units)
            \<and> (\<exists>decimals. Number_parseInt rt (prop_of tx ''tokenDecimal'') = Inr decimals)
            \<and> (\<exists>seconds t. Number_parseInt rt (prop_of tx ''timeStamp'') = Inr seconds
                   \<and> Date_time rt (num_mul rt seconds (num_lit rt 1000)) = Some t))
          \<longrightarrow> (\<exists>a. analyse rt clk address expectedAmount parsed = Inr a
                 \<and> balance a =
                     foldl (num_add rt) (num_lit rt 0)
                       (map (\<lambda>tx. num_div rt (projr (Number_parseInt rt (prop_of tx ''value'')))
                                    (Math_pow rt (num_lit rt 10)
                                       (projr (Number_parseInt rt (prop_of tx ''tokenDecimal'')))))
                          (filter (\<lambda>tx. \<exists>s. prop_of tx ''to'' = JStr s
                                            \<and> toLowerCase rt s = toLowerCase rt address) txs))))
     \<and> (\<not> (\<forall>tx\<in>set txs.
              (\<exists>s. prop_of tx ''to'' = JStr s)
            \<and> (\<exists>units. Number_parseInt rt (prop_of tx ''value'') = Inr units)
            \<and> (\<exists>decimals. Number_parseInt rt (prop_of tx ''tokenDecimal'') = Inr decimals)
            \<and> (\<exists>seconds t. Number_parseInt rt (prop_of tx ''timeStamp'') = Inr seconds
                   \<and> Date_time rt (num_mul rt seconds (num_lit rt 1000)) = Some t))
          \<longrightarrow> (\<exists>err. analyse rt clk address expectedAmount parsed = Inl err))"
  using balance_in_primitives[OF assms, of rt clk address expectedAmount]
        no_balance_when_raised[OF assms, of rt clk address expectedAmount]
  by blast

text \<open>
  Three transfers: one token to \<^verbatim>\<open>0xABC\<close>, five tokens to \<^verbatim>\<open>0xdef\<close>, and two tokens
  to \<^verbatim>\<open>0xabc\<close> more than three years ago. The balance asked for \<^verbatim>\<open>0xabc\<close> is 3: the
  second transfer is left out, the third counts although it is neither recent nor of the
  requested amount. And the list with the transfer whose date is invalid leaves no
  balance.
\<close>

theorem transfer_balance_sums_incoming_amounts_witness:
  "prop_of mixedBody ''status'' = JStr ''1''
   \<and> prop_of mixedBody ''result'' = JArr [paidTx, strangerTx, oldTx]
   \<and> prop_of paidTx ''to'' = JStr ''0xABC''
   \<and> prop_of strangerTx ''to'' = JStr ''0xdef''
   \<and> prop_of oldTx ''to'' = JStr ''0xabc''
   \<and> toLowerCase paidRt ''0xABC'' = ''0xabc''
   \<and> toLowerCase paidRt ''0xdef'' = ''0xdef''
   \<and> toLowerCase paidRt ''0xabc'' = ''0xabc''
   \<and> Number_parseInt paidRt (prop_of paidTx ''value'') = Inr (Fin 1000000000000000000)
   \<and> Number_parseInt paidRt (prop_of strangerTx ''value'') = Inr (Fin 5000000000000000000)
   \<and> Number_parseInt paidRt (prop_of oldTx ''value'') = Inr (Fin 2000000000000000000)
   \<and> Number_parseInt paidRt (prop_of paidTx ''tokenDecimal'') = Inr (Fin 18)
   \<and> Number_parseInt paidRt (prop_of strangerTx ''tokenDecimal'') = Inr (Fin 18)
   \<and> Number_parseInt paidRt (prop_of oldTx ''tokenDecimal'') = Inr (Fin 18)
   \<and> Number_parseInt paidRt (prop_of paidTx ''timeStamp'') = Inr (Fin 1700000000)
   \<and> Number_parseInt paidRt (prop_of strangerTx ''timeStamp'') = Inr (Fin 1700000001)
   \<and> Number_parseInt paidRt (prop_of oldTx ''timeStamp'') = Inr (Fin 1600000000)
   \<and> Date_time paidRt (num_mul paidRt (Fin 1700000000) (num_lit paidRt 1000)) = Some 1700000000000
   \<and> Date_time paidRt (num_mul paidRt (Fin 1700000001) (num_lit paidRt 1000)) = Some 1700000001000
   \<and> Date_time paidRt (num_mul paidRt (Fin 1600000000) (num_lit paidRt 1000)) = Some 1600000000000
   \<and> num_div paidRt (Fin 1000000000000000000) (Math_pow paidRt (num_lit paidRt 10) (Fin 18)) = Fin 1
   \<and> num_div paidRt (Fin 2000000000000000000) (Math_pow paidRt (num_lit paidRt 10) (Fin 18)) = Fin 2
   \<and> num_add paidRt (num_add paidRt (num_lit paidRt 0) (Fin 1)) (Fin 2) = Fin 3
   \<and> (\<exists>a. analyse paidRt (\<lambda>k. 1700000005000) ''0xabc'' ''1'' mixedBody = Inr a
          \<and> balance a = Fin 3)
   \<and> prop_of unreadableBody ''status'' = JStr ''1''
   \<and> prop_of unreadableBody ''result'' = JArr [paidTx, farFutureTx]
   \<and> Number_parseInt paidRt (prop_of farFutureTx ''timeStamp'') = Inr (Fin 9999999999999)
   \<and> Date_time paidRt (num_mul paidRt (Fin 9999999999999) (num_lit paidRt 1000)) = None
   \<and> (\<exists>err. analyse paidRt (\<lambda>k. 1700000005000) ''0xabc'' ''1'' unreadableBody = Inl err)"
proof -
  have status: "prop_of mixedBody ''status'' = JStr ''1''"
    and result: "prop_of mixedBody ''result'' = JArr [paidTx, strangerTx, oldTx]"
    by (simp_all add: mixedBody_def)
  have recipients: "prop_of paidTx ''to'' = JStr ''0xABC''"
    "prop_of strangerTx ''to'' = JStr ''0xdef''" "prop_of oldTx ''to'' = JStr ''0xabc''"
    by (simp_all add: paidTx_props strangerTx_props oldTx_props)
  have lower: "toLowerCase paidRt ''0xABC'' = ''0xabc''" "toLowerCase paidRt ''0xdef'' = ''0xdef''"
    "toLowerCase paidRt ''0xabc'' = ''0xabc''"
    by (simp_all add: paidRt_def lowered)
  have units: "Number_parseInt paidRt (prop_of paidTx ''value'') = Inr (Fin 1000000000000000000)"
    "Number_parseInt paidRt (prop_of strangerTx ''value'') = Inr (Fin 5000000000000000000)"
    "Number_parseInt paidRt (prop_of oldTx ''value'') = Inr (Fin 2000000000000000000)"
    by (simp_all add: paidRt_def paidTx_props strangerTx_props oldTx_props units_parsed)
  have decimals: "Number_parseInt paidRt (prop_of paidTx ''tokenDecimal'') = Inr (Fin 18)"
    "Number_parseInt paidRt (prop_of strangerTx ''tokenDecimal'') = Inr (Fin 18)"
    "Number_parseInt paidRt (prop_of oldTx ''tokenDecimal'') = Inr (Fin 18)"
    by (simp_all add: paidRt_def paidTx_props strangerTx_props oldTx_props units_parsed)
  have seconds: "Number_parseInt paidRt (prop_of paidTx ''timeStamp'') = Inr (Fin 1700000000)"
    "Number_parseInt paidRt (prop_of strangerTx ''timeStamp'') = Inr (Fin 1700000001)"
    "Number_parseInt paidRt (prop_of oldTx ''timeStamp'') = Inr (Fin 1600000000)"
    by (simp_all add: paidRt_def paidTx_props strangerTx_props oldTx_props seconds_parsed)
  have date: "Date_time paidRt (num_mul paidRt (Fin 1700000000) (num_lit paidRt 1000)) = Some 1700000000000"
    "Date_time paidRt (num_mul paidRt (Fin 1700000001) (num_lit paidRt 1000)) = Some 1700000001000"
    "Date_time paidRt (num_mul paidRt (Fin 1600000000) (num_lit paidRt 1000)) = Some 1600000000000"
    by (simp_all add: paidRt_def dates)
  have amounts:
    "num_div paidRt (Fin 1000000000000000000) (Math_pow paidRt (num_lit paidRt 10) (Fin 18)) = Fin 1"
    "num_div paidRt (Fin 2000000000000000000) (Math_pow paidRt (num_lit paidRt 10) (Fin 18)) = Fin 2"
    by (simp_all add: paidRt_def tokens)
  have total: "num_add paidRt (num_add paidRt (num_lit paidRt 0) (Fin 1)) (Fin 2) = Fin 3"
    by (simp add: paidRt_def)
  have readable: "\<forall>tx\<in>set [paidTx, strangerTx, oldTx].
              (\<exists>s. prop_of tx ''to'' = JStr s)
            \<and> (\<exists>units. Number_parseInt paidRt (prop_of tx ''value'') = Inr units)
            \<and> (\<exists>decimals. Number_parseInt paidRt (prop_of tx ''tokenDecimal'') = Inr decimals)
            \<and> (\<exists>seconds t. Number_parseInt paidRt (prop_of tx ''timeStamp'') = Inr seconds
                   \<and> Date_time paidRt (num_mul paidRt seconds (num_lit paidRt 1000)) = Some t)"
    using recipients units decimals seconds date by (simp del: prop_of.simps)
  have incoming: "filter (\<lambda>tx. \<exists>s. prop_of tx ''to'' = JStr s
                      \<and> toLowerCase paidRt s = toLowerCase paidRt ''0xabc'')
                    [paidTx, strangerTx, oldTx] = [paidTx, oldTx]"
    using recipients lower by (simp del: prop_of.simps)
  from transfer_balance_sums_incoming_amounts
         [OF status result, of paidRt "\<lambda>k. 1700000005000" "''0xabc''" "''1''"] readable
  obtain a where analysed: "analyse paidRt (\<lambda>k. 1700000005000) ''0xabc'' ''1'' mixedBody = Inr a"
    and sum: "balance a =
                foldl (num_add paidRt) (num_lit paidRt 0)
                  (map (\<lambda>tx. num_div paidRt (projr (Number_parseInt paidRt (prop_of tx ''value'')))
                               (Math_pow paidRt (num_lit paidRt 10)
                                  (projr (Number_parseInt paidRt (prop_of tx ''tokenDecimal'')))))
                     (filter (\<lambda>tx. \<exists>s. prop_of tx ''to'' = JStr s
                                       \<and> toLowerCase paidRt s = toLowerCase paidRt ''0xabc'')
                        [paidTx, strangerTx, oldTx]))"
    by blast
  have "balance a = Fin 3"
    unfolding sum incoming using units decimals amounts total by (simp del: prop_of.simps)
  with analysed have derived:
    "\<exists>a. analyse paidRt (\<lambda>k. 1700000005000) ''0xabc'' ''1'' mixedBody = Inr a \<and> balance a = Fin 3"
    by blast
  have status': "prop_of unreadableBody ''status'' = JStr ''1''"
    and result': "prop_of unreadableBody ''result'' = JArr [paidTx, farFutureTx]"
    by (simp_all add: unreadableBody_def)
  have far: "Number_parseInt paidRt (prop_of farFutureTx ''timeStamp'') = Inr (Fin 9999999999999)"
    and invalid: "Date_time paidRt (num_mul paidRt (Fin 9999999999999) (num_lit paidRt 1000)) = None"
    by (simp_all add: paidRt_def farFutureTx_props seconds_parsed dates)
  have unreadable: "\<not> (\<forall>tx\<in>set [paidTx, farFutureTx].
              (\<exists>s. prop_of tx ''to'' = JStr s)
            \<and> (\<exists>units. Number_parseInt paidRt (prop_of tx ''value'') = Inr units)
            \<and> (\<exists>decimals. Number_parseInt paidRt (prop_of tx ''tokenDecimal'') = Inr decimals)
            \<and> (\<exists>seconds t. Number_parseInt paidRt (prop_of tx ''timeStamp'') = Inr seconds
                   \<and> Date_time paidRt (num_mul paidRt seconds (num_lit paidRt 1000)) = Some t))"
    using far invalid by (simp del: prop_of.simps)
  from transfer_balance_sums_incoming_amounts
         [OF status' result', of paidRt "\<lambda>k. 1700000005000" "''0xabc''" "''1''"] unreadable
  have raised: "\<exists>err. analyse paidRt (\<lambda>k. 1700000005000) ''0xabc'' ''1'' unreadableBody = Inl err"
    by blast
  from status result recipients lower units decimals seconds date amounts total derived
       status' result' far invalid raised
  show ?thesis
    by (simp only: simp_thms)
qed

text \<open>
  The claim as stated fails. The explorer lists two transfers of one token each to
  \<^verbatim>\<open>0xABC\<close>, so the sum the claim describes is 2. The second has a \<^verbatim>\<open>timeStamp\<close>
  beyond the range of \<^verbatim>\<open>Date\<close>: line 158 raises before line 176 is reached, no
  balance is derived and no balance call is issued, and the report says
  \<^verbatim>\<open>balance: 0\<close>.
\<close>

theorem raising_transaction_leaves_no_balance:
  "prop_of unreadableBody ''status'' = JStr ''1''
   \<and> prop_of unreadableBody ''result'' = JArr [paidTx, farFutureTx]
   \<and> foldl (num_add unreadableRt) (num_lit unreadableRt 0)
       (map (\<lambda>tx. num_div unreadableRt (projr (Number_parseInt unreadableRt (prop_of tx ''value'')))
                    (Math_pow unreadableRt (num_lit unreadableRt 10)
                       (projr (Number_parseInt unreadableRt (prop_of tx ''tokenDecimal'')))))
          (filter (\<lambda>tx. \<exists>s. prop_of tx ''to'' = JStr s
                            \<and> toLowerCase unreadableRt s = toLowerCase unreadableRt ''0xabc'')
             [paidTx, farFutureTx])) = Fin 2
   \<and> analyse unreadableRt (\<lambda>k. 1700000005000) ''0xabc'' ''1'' unreadableBody
       = Inl (Error ''Invalid time value'' [])
   \<and> snd (GET unreadableRt (env_at (explorer unreadableText balanceText) 1700000005000) req0)
       = [(endpoint1, tokentxHeaders)]
   \<and> prop_of (json_body (fst (GET unreadableRt
                (env_at (explorer unreadableText balanceText) 1700000005000) req0))) ''balance''
       = JNum (Fin 0)"
proof -
  have status: "prop_of unreadableBody ''status'' = JStr ''1''"
    and result: "prop_of unreadableBody ''result'' = JArr [paidTx, farFutureTx]"
    by (simp_all add: unreadableBody_def)
  have incoming: "filter (\<lambda>tx. \<exists>s. prop_of tx ''to'' = JStr s
                            \<and> toLowerCase unreadableRt s = toLowerCase unreadableRt ''0xabc'')
             [paidTx, farFutureTx] = [paidTx, farFutureTx]"
    by (simp add: paidTx_props farFutureTx_props unreadableRt_def lowered del: prop_of.simps)
  have sum: "foldl (num_add unreadableRt) (num_lit unreadableRt 0)
       (map (\<lambda>tx. num_div unreadableRt (projr (Number_parseInt unreadableRt (prop_of tx ''value'')))
                    (Math_pow unreadableRt (num_lit unreadableRt 10)
                       (projr (Number_parseInt unreadableRt (prop_of tx ''tokenDecimal'')))))
          [paidTx, farFutureTx]) = Fin 2"
    by (simp add: paidTx_props farFutureTx_props unreadableRt_def units_parsed tokens
          del: prop_of.simps)
  have "processTxs unreadableRt ''0xabc'' ''1'' (\<lambda>k. 1700000005000) 0 [paidTx, farFutureTx]
          = Inl (Error ''Invalid time value'' [])"
    by (simp add: processTxs_def enumerate_eq_zip upt_rec unreadableRt_def paidTx_processed_at
          farFutureTx_raises)
  then have raised: "analyse unreadableRt (\<lambda>k. 1700000005000) ''0xabc'' ''1'' unreadableBody
          = Inl (Error ''Invalid time value'' [])"
    by (simp add: analyse_array[OF status result])
  have report: "prop_of (json_body (fst (GET unreadableRt
                (env_at (explorer unreadableText balanceText) 1700000005000) req0))) ''balance''
       = JNum (Fin 0)"
    by (simp add: unreadable_run failureReport_fields) (simp add: unreadableRt_def)
  have calls: "snd (GET unreadableRt (env_at (explorer unreadableText balanceText) 1700000005000) req0)
       = [(endpoint1, tokentxHeaders)]"
    by (simp add: unreadable_run)
  from status result sum raised calls report show ?thesis
    unfolding incoming by (simp only: simp_thms)
qed

subsection \<open>C10: the recency check\<close>




subsection \<open>C7: the transactions of the report\<close>




subsection \<open>C5: the upstream status in the report\<close>

text \<open>
  Claim C5. For every successfully parsed upstream body (whatever its status or the
  shape of its result field), the handler returns an HTTP 200 report whose \<^verbatim>\<open>apiStatus\<close>
  field carries the upstream body's raw status, message, and result values.

  As amended: for every parsed upstream body that is truthy, when no error is raised
  while the report is built, the handler returns an HTTP 200 report whose \<^verbatim>\<open>apiStatus\<close>
  holds the body's status, message and result, each replaced by its default
  (\<^verbatim>\<open>"0"\<close>, \<^verbatim>\<open>"Unknown error"\<close>, \<^verbatim>\<open>null\<close>) when it is falsy or absent; and no error is
  raised when the result is falsy.
\<close>

theorem apiStatus_holds_upstream_values_or_defaults:
  assumes "searchParams_address req = Some address" and "address \<noteq> []"
      and "searchParams_amount req = Some expectedAmount" and "expectedAmount \<noteq> []"
      and "tryEndpoints rt (network env) (apiEndpoints address (etherscanApiKey env)) None
             = ((parsed, workingEndpoint, lastError), calls)"
      and "truthy rt parsed"
  shows "((\<exists>response calls'. GET_try rt env req = (Inr response, calls')) \<longrightarrow>
            http_status (fst (GET rt env req)) = 200
            \<and> prop_of (json_body (fst (GET rt env req))) ''apiStatus'' =
                JObj [(''status'', or_else rt (prop_of parsed ''status'') (JStr ''0'')),
                      (''message'', or_else rt (prop_of parsed ''message'') (JStr ''Unknown error'')),
                      (''result'', or_else rt (prop_of parsed ''result'') JNull)])
     \<and> (\<not> truthy rt (prop_of parsed ''result'') \<longrightarrow>
            (\<exists>response calls'. GET_try rt env req = (Inr response, calls')))"
proof (intro conjI impI)
  assume "\<exists>response calls'. GET_try rt env req = (Inr response, calls')"
  then obtain response calls' where "GET_try rt env req = (Inr response, calls')"
    by blast
  from no_error_cases[OF assms this] obtain a ts where
    analysed: "analyse rt (clock env) address expectedAmount parsed = Inr a"
    and shaped: "(if truthy rt (prop_of parsed ''result'')
                  then sliceMap rt (prop_of parsed ''result'') else Inr []) = Inr ts"
    by blast
  from report_fields[OF assms analysed shaped] analyse_apiStatus[OF analysed assms(6)]
  show "http_status (fst (GET rt env req)) = 200" 
    and "prop_of (json_body (fst (GET rt env req))) ''apiStatus'' =
                JObj [(''status'', or_else rt (prop_of parsed ''status'') (JStr ''0'')),
                      (''message'', or_else rt (prop_of parsed ''message'') (JStr ''Unknown error'')),
                      (''result'', or_else rt (prop_of parsed ''result'') JNull)]"
    by (auto simp: GET_def apiStatus_of_def)
next
  assume falsy: "\<not> truthy rt (prop_of parsed ''result'')"
  then have analysed: "analyse rt (clock env) address expectedAmount parsed =
     Inr \<lparr>confirmed = False, matchingTransactions = [], balance = num_lit rt 0,
          apiStatus = apiStatus_of rt parsed\<rparr>"
    by (intro analyse_other assms(6)) simp
  from falsy have shaped: "(if truthy rt (prop_of parsed ''result'')
                  then sliceMap rt (prop_of parsed ''result'') else Inr []) = Inr []"
    by simp
  from report_fields[OF assms analysed shaped]
  show "\<exists>response calls'. GET_try rt env req = (Inr response, calls')"
    by blast
qed

text \<open>Status, message and result are all truthy, and the report holds them as they came.\<close>

theorem apiStatus_holds_upstream_values_or_defaults_witness:
  "searchParams_address req0 = Some ''0xabc'' \<and> searchParams_amount req0 = Some ''1''
   \<and> tryEndpoints paidRt (network paidEnv) (apiEndpoints ''0xabc'' (etherscanApiKey paidEnv)) None
        = ((paidBody, Some endpoint1, None), [(endpoint1, tokentxHeaders)])
   \<and> truthy paidRt paidBody
   \<and> (\<exists>response calls'. GET_try paidRt paidEnv req0 = (Inr response, calls'))
   \<and> http_status (fst (GET paidRt paidEnv req0)) = 200
   \<and> prop_of (json_body (fst (GET paidRt paidEnv req0))) ''apiStatus'' =
       JObj [(''status'', JStr ''1''), (''message'', JStr ''OK''), (''result'', JArr [paidTx])]"
proof -
  have params: "searchParams_address req0 = Some ''0xabc''" "''0xabc'' \<noteq> []"
               "searchParams_amount req0 = Some ''1''" "''1'' \<noteq> []"
    by (simp_all add: req0_def)
  have loop: "tryEndpoints paidRt (network paidEnv) (apiEndpoints ''0xabc'' (etherscanApiKey paidEnv)) None
        = ((paidBody, Some endpoint1, None), [(endpoint1, tokentxHeaders)])"
    by (simp add: paidEnv_def endpoints0 paid_loop)
  have truthy: "truthy paidRt paidBody"
    by (simp add: paidBody_def)
  note no_error = paid_no_error
  have fields: "or_else paidRt (prop_of paidBody ''status'') (JStr ''0'') = JStr ''1''"
    "or_else paidRt (prop_of paidBody ''message'') (JStr ''Unknown error'') = JStr ''OK''"
    "or_else paidRt (prop_of paidBody ''result'') JNull = JArr [paidTx]"
    by (simp_all add: paidBody_def or_else_def)
  from apiStatus_holds_upstream_values_or_defaults[OF params loop truthy] no_error
  have "http_status (fst (GET paidRt paidEnv req0)) = 200
   \<and> prop_of (json_body (fst (GET paidRt paidEnv req0))) ''apiStatus'' =
       JObj [(''status'', JStr ''1''), (''message'', JStr ''OK''), (''result'', JArr [paidTx])]"
    by (simp add: fields)
  with params loop truthy no_error show ?thesis
    by simp
qed

text \<open>
  The claim as stated fails: the explorer answers with an empty message, and the report
  says \<^verbatim>\<open>"Unknown error"\<close> instead.
\<close>

theorem empty_message_is_replaced:
  "tryEndpoints emptyMessageRt (network emptyMessageEnv)
       (apiEndpoints ''0xabc'' (etherscanApiKey emptyMessageEnv)) None
     = ((emptyMessageBody, Some endpoint1, None), [(endpoint1, tokentxHeaders)])
   \<and> prop_of emptyMessageBody ''message'' = JStr ''''
   \<and> http_status (fst (GET emptyMessageRt emptyMessageEnv req0)) = 200
   \<and> prop_of (json_body (fst (GET emptyMessageRt emptyMessageEnv req0))) ''apiStatus'' =
       JObj [(''status'', JStr ''0''), (''message'', JStr ''Unknown error''), (''result'', JArr [])]"
proof -
  have loop: "tryEndpoints emptyMessageRt (network emptyMessageEnv)
                (apiEndpoints ''0xabc'' (etherscanApiKey emptyMessageEnv)) None
        = ((emptyMessageBody, Some endpoint1, None), [(endpoint1, tokentxHeaders)])"
    by (simp add: emptyMessageEnv_def endpoints0 tryEndpoints.simps tryEndpoint_def
          explorer_endpoint1 respond_def ok_def emptyMessageRt_def parseTable_def)
  moreover have "prop_of emptyMessageBody ''message'' = JStr ''''"
    by (simp add: emptyMessageBody_def)
  ultimately show ?thesis
    using emptyMessage_report by (auto simp: GET_def)
qed

subsection \<open>C3: the balance call\<close>

text \<open>
  Claim C3. For every invocation where an endpoint succeeded: if the secondary balance
  call succeeds with HTTP-ok and body status \<^verbatim>\<open>"1"\<close>, the final balance equals the
  returned raw integer balance divided by \<open>10^18\<close> (raw balance
  \<^verbatim>\<open>"2500000000000000000"\<close> yields 2.5); if the secondary call fails in any way
  (transport error, timeout, non-ok status, or status other than \<^verbatim>\<open>"1"\<close>), the
  transfer-derived balance computed earlier is returned unchanged and no exception
  propagates to the caller.

  As amended: the same for every invocation where an endpoint gave a truthy body, lines
  132 to 177 complete (leaving the transfer-derived balance) and the transactions of the
  report (lines 214 to 223) can be built. Then, whatever the balance call does, the
  \<^verbatim>\<open>try\<close> block returns a report and has issued the balance call once, right after the
  calls of the loop. When the balance call answers with a status from 200 to 299 and a
  JSON body of status \<^verbatim>\<open>"1"\<close> whose result \<^verbatim>\<open>Number.parseInt\<close> accepts, the
  reported balance is that number divided by \<open>10^18\<close>. In every other case (the call
  is rejected or aborted, the status is outside 200 to 299, the body cannot be read or
  parsed, its status is not \<^verbatim>\<open>"1"\<close>, \<^verbatim>\<open>Number.parseInt\<close> raises) the reported
  balance is the transfer-derived one.
\<close>

theorem balance_is_refined_or_kept:
  assumes "searchParams_address req = Some address" and "address \<noteq> []"
      and "searchParams_amount req = Some expectedAmount" and "expectedAmount \<noteq> []"
      and "tryEndpoints rt (network env) (apiEndpoints address (etherscanApiKey env)) None
             = ((parsed, Some url, lastError), calls)"
      and "truthy rt parsed"
      and "analyse rt (clock env) address expectedAmount parsed = Inr a"
      and "(if truthy rt (prop_of parsed ''result'')
            then sliceMap rt (prop_of parsed ''result'') else Inr []) = Inr ts"
  shows "(\<exists>response. GET_try rt env req =
            (Inr response, calls @ [(balanceUrl url, balanceHeaders)]))
     \<and> (\<forall>st stText responseText balanceData wei.
           network env (balanceUrl url, balanceHeaders) = Response st stText (BodyText responseText)
           \<and> 200 \<le> st \<and> st \<le> 299
           \<and> JSON_parse rt responseText = Inr balanceData
           \<and> prop_of balanceData ''status'' = JStr ''1''
           \<and> Number_parseInt rt (or_else rt (prop_of balanceData ''result'') (JStr ''0'')) = Inr wei
           \<longrightarrow> prop_of (json_body (fst (GET rt env req))) ''balance'' =
                 JNum (num_div rt wei (Math_pow rt (num_lit rt 10) (num_lit rt 18))))
     \<and> (\<not> (\<exists>st stText responseText balanceData wei.
           network env (balanceUrl url, balanceHeaders) = Response st stText (BodyText responseText)
           \<and> 200 \<le> st \<and> st \<le> 299
           \<and> JSON_parse rt responseText = Inr balanceData
           \<and> prop_of balanceData ''status'' = JStr ''1''
           \<and> Number_parseInt rt (or_else rt (prop_of balanceData ''result'') (JStr ''0'')) = Inr wei)
         \<longrightarrow> prop_of (json_body (fst (GET rt env req))) ''balance'' = JNum (balance a))"
proof (intro conjI allI impI)
  show "\<exists>response. GET_try rt env req =
            (Inr response, calls @ [(balanceUrl url, balanceHeaders)])"
    by (rule balance_field(1)[OF assms])
next
  fix st stText responseText balanceData wei
  assume "network env (balanceUrl url, balanceHeaders) = Response st stText (BodyText responseText)
           \<and> 200 \<le> st \<and> st \<le> 299
           \<and> JSON_parse rt responseText = Inr balanceData
           \<and> prop_of balanceData ''status'' = JStr ''1''
           \<and> Number_parseInt rt (or_else rt (prop_of balanceData ''result'') (JStr ''0'')) = Inr wei"
  then have "fetchBalance rt (network env) url =
               Inr (Some (num_div rt wei (Math_pow rt (num_lit rt 10) (num_lit rt 18))))"
    unfolding fetchBalance_Some_iff ok_def by blast
  then show "prop_of (json_body (fst (GET rt env req))) ''balance'' =
                 JNum (num_div rt wei (Math_pow rt (num_lit rt 10) (num_lit rt 18)))"
    by (simp add: balance_field(2)[OF assms])
next
  assume "\<not> (\<exists>st stText responseText balanceData wei.
           network env (balanceUrl url, balanceHeaders) = Response st stText (BodyText responseText)
           \<and> 200 \<le> st \<and> st \<le> 299
           \<and> JSON_parse rt responseText = Inr balanceData
           \<and> prop_of balanceData ''status'' = JStr ''1''
           \<and> Number_parseInt rt (or_else rt (prop_of balanceData ''result'') (JStr ''0'')) = Inr wei)"
  then have "\<And>fresh. fetchBalance rt (network env) url \<noteq> Inr (Some fresh)"
    unfolding fetchBalance_Some_iff ok_def by blast
  then show "prop_of (json_body (fst (GET rt env req))) ''balance'' = JNum (balance a)"
    by (auto simp: balance_field(2)[OF assms] split: sum.splits option.splits)
qed

text \<open>
  The raw balance \<^verbatim>\<open>"2500000000000000000"\<close> gives the balance 2.5; and when the
  balance call is refused, the report holds the balance 1 derived from the one transfer.
\<close>

theorem balance_is_refined_or_kept_witness:
  "searchParams_address req0 = Some ''0xabc'' \<and> searchParams_amount req0 = Some ''1''
   \<and> tryEndpoints paidRt (network paidEnv) (apiEndpoints ''0xabc'' (etherscanApiKey paidEnv)) None
        = ((paidBody, Some endpoint1, None), [(endpoint1, tokentxHeaders)])
   \<and> truthy paidRt paidBody
   \<and> analyse paidRt (clock paidEnv) ''0xabc'' ''1'' paidBody =
       Inr \<lparr>confirmed = True, matchingTransactions = [paidProcessed], balance = Fin 1,
            apiStatus = paidBody\<rparr>
   \<and> (if truthy paidRt (prop_of paidBody ''result'')
       then sliceMap paidRt (prop_of paidBody ''result'') else Inr []) = Inr [paidShaped]
   \<and> network paidEnv (balanceUrl endpoint1, balanceHeaders) = Response 200 ''OK'' (BodyText balanceText)
   \<and> JSON_parse paidRt balanceText = Inr balanceBody
   \<and> prop_of balanceBody ''status'' = JStr ''1''
   \<and> prop_of balanceBody ''result'' = JStr ''2500000000000000000''
   \<and> Number_parseInt paidRt (or_else paidRt (prop_of balanceBody ''result'') (JStr ''0''))
        = Inr (Fin 2500000000000000000)
   \<and> num_div paidRt (Fin 2500000000000000000) (Math_pow paidRt (num_lit paidRt 10) (num_lit paidRt 18))
        = Fin (5 / 2)
   \<and> (\<exists>response. GET_try paidRt paidEnv req0 =
         (Inr response, [(endpoint1, tokentxHeaders)] @ [(balanceUrl endpoint1, balanceHeaders)]))
   \<and> prop_of (json_body (fst (GET paidRt paidEnv req0))) ''balance'' = JNum (Fin (5 / 2))
   \<and> tryEndpoints paidRt (network refusedEnv) (apiEndpoints ''0xabc'' (etherscanApiKey refusedEnv)) None
        = ((paidBody, Some endpoint1, None), [(endpoint1, tokentxHeaders)])
   \<and> analyse paidRt (clock refusedEnv) ''0xabc'' ''1'' paidBody =
       Inr \<lparr>confirmed = True, matchingTransactions = [paidProcessed], balance = Fin 1,
            apiStatus = paidBody\<rparr>
   \<and> network refusedEnv (balanceUrl endpoint1, balanceHeaders) = Rejected (Error ''fetch failed'' [])
   \<and> (\<exists>response. GET_try paidRt refusedEnv req0 =
         (Inr response, [(endpoint1, tokentxHeaders)] @ [(balanceUrl endpoint1, balanceHeaders)]))
   \<and> prop_of (json_body (fst (GET paidRt refusedEnv req0))) ''balance'' = JNum (Fin 1)"
proof -
  let ?a = "\<lparr>confirmed = True, matchingTransactions = [paidProcessed], balance = Fin 1,
             apiStatus = paidBody\<rparr>"
  have params: "searchParams_address req0 = Some ''0xabc''" "''0xabc'' \<noteq> []"
               "searchParams_amount req0 = Some ''1''" "''1'' \<noteq> []"
    by (simp_all add: req0_def)
  have loop: "tryEndpoints paidRt (network paidEnv) (apiEndpoints ''0xabc'' (etherscanApiKey paidEnv)) None
        = ((paidBody, Some endpoint1, None), [(endpoint1, tokentxHeaders)])"
    by (simp add: paidEnv_def endpoints0 paid_loop)
  have truthy: "truthy paidRt paidBody"
    by (simp add: paidBody_def)
  have analysed: "analyse paidRt (clock paidEnv) ''0xabc'' ''1'' paidBody = Inr ?a"
    by (simp add: paidEnv_def paid_analysis)
  note shaped = paid_shaped
  have answer: "network paidEnv (balanceUrl endpoint1, balanceHeaders)
                  = Response 200 ''OK'' (BodyText balanceText)"
    by (simp add: paidEnv_def balanceUrl_endpoint1 explorer_balanceEndpoint1 respond_def)
  have ok: "(200 :: nat) \<le> 200" "(200 :: nat) \<le> 299"
    by simp_all
  have parsed: "JSON_parse paidRt balanceText = Inr balanceBody"
    by (simp add: paidRt_def parseTable_def texts_differ)
  have status: "prop_of balanceBody ''status'' = JStr ''1''"
    and result: "prop_of balanceBody ''result'' = JStr ''2500000000000000000''"
    by (simp_all add: balanceBody_def)
  have digits: "ref_parseInt (JStr ''2500000000000000000'') = Inr (Fin 2500000000000000000)"
    by code_simp
  have wei: "Number_parseInt paidRt (or_else paidRt (prop_of balanceBody ''result'') (JStr ''0''))
               = Inr (Fin 2500000000000000000)"
    using digits by (simp add: result or_else_def paidRt_def)
  have quotient: "ref_div (Fin 2500000000000000000) (ref_pow (Fin 10) (Fin 18)) = Fin (5 / 2)"
    by code_simp
  have tokens: "num_div paidRt (Fin 2500000000000000000)
                  (Math_pow paidRt (num_lit paidRt 10) (num_lit paidRt 18)) = Fin (5 / 2)"
    by (simp add: paidRt_def quotient)
  note refined = balance_is_refined_or_kept[OF params loop truthy analysed shaped]
  from refined have returned: "\<exists>response. GET_try paidRt paidEnv req0 =
         (Inr response, [(endpoint1, tokentxHeaders)] @ [(balanceUrl endpoint1, balanceHeaders)])"
    by (rule conjunct1)
  from refined answer ok parsed status wei
  have "prop_of (json_body (fst (GET paidRt paidEnv req0))) ''balance'' =
          JNum (num_div paidRt (Fin 2500000000000000000)
                  (Math_pow paidRt (num_lit paidRt 10) (num_lit paidRt 18)))"
    by blast
  then have fresh: "prop_of (json_body (fst (GET paidRt paidEnv req0))) ''balance'' = JNum (Fin (5 / 2))"
    by (simp only: tokens)
  have loop': "tryEndpoints paidRt (network refusedEnv)
                 (apiEndpoints ''0xabc'' (etherscanApiKey refusedEnv)) None
        = ((paidBody, Some endpoint1, None), [(endpoint1, tokentxHeaders)])"
    by (simp add: refusedEnv_def endpoints0 refused_loop)
  have analysed': "analyse paidRt (clock refusedEnv) ''0xabc'' ''1'' paidBody = Inr ?a"
    by (simp add: refusedEnv_def paid_analysis)
  have rejected: "network refusedEnv (balanceUrl endpoint1, balanceHeaders)
                    = Rejected (Error ''fetch failed'' [])"
    by (simp add: refusedEnv_def balanceUrl_endpoint1 refusing_balanceEndpoint1)
  note kept = balance_is_refined_or_kept[OF params loop' truthy analysed' shaped]
  from kept have returned': "\<exists>response. GET_try paidRt refusedEnv req0 =
         (Inr response, [(endpoint1, tokentxHeaders)] @ [(balanceUrl endpoint1, balanceHeaders)])"
    by (rule conjunct1)
  have "\<not> (\<exists>st stText responseText balanceData wei.
           network refusedEnv (balanceUrl endpoint1, balanceHeaders)
             = Response st stText (BodyText responseText)
           \<and> 200 \<le> st \<and> st \<le> 299
           \<and> JSON_parse paidRt responseText = Inr balanceData
           \<and> prop_of balanceData ''status'' = JStr ''1''
           \<and> Number_parseInt paidRt (or_else paidRt (prop_of balanceData ''result'') (JStr ''0''))
                = Inr wei)"
    by (simp add: rejected)
  with kept have "prop_of (json_body (fst (GET paidRt refusedEnv req0))) ''balance'' = JNum (balance ?a)"
    by blast
  then have old: "prop_of (json_body (fst (GET paidRt refusedEnv req0))) ''balance'' = JNum (Fin 1)"
    by simp
  from params loop truthy analysed shaped answer parsed status result wei tokens returned fresh
       loop' analysed' rejected returned' old
  show ?thesis
    by (simp only: simp_thms)
qed

text \<open>
  The claim as stated fails. The transfer history has status \<^verbatim>\<open>"0"\<close> and lists
  \<^verbatim>\<open>null\<close>; lines 142 to 177 are skipped. The balance call succeeds with status
  \<^verbatim>\<open>"1"\<close> and the raw balance of 2.5 tokens. Then line 216 reads \<^verbatim>\<open>tx.hash\<close> of
  \<^verbatim>\<open>null\<close>, the \<^verbatim>\<open>catch\<close> of line 240 takes over, and the final balance is 0.
\<close>

theorem later_error_discards_the_balance:
  "tryEndpoints nullElementRt (network nullElementEnv)
       (apiEndpoints ''0xabc'' (etherscanApiKey nullElementEnv)) None
     = ((nullElementBody, Some endpoint1, None), [(endpoint1, tokentxHeaders)])
   \<and> network nullElementEnv (balanceUrl endpoint1, balanceHeaders)
       = Response 200 ''OK'' (BodyText balanceText)
   \<and> ok 200
   \<and> JSON_parse nullElementRt balanceText = Inr balanceBody
   \<and> prop_of balanceBody ''status'' = JStr ''1''
   \<and> prop_of balanceBody ''result'' = JStr ''2500000000000000000''
   \<and> fetchBalance nullElementRt (network nullElementEnv) endpoint1 = Inr (Some (Fin (5 / 2)))
   \<and> snd (GET nullElementRt nullElementEnv req0)
       = [(endpoint1, tokentxHeaders), (balanceEndpoint1, balanceHeaders)]
   \<and> prop_of (json_body (fst (GET nullElementRt nullElementEnv req0))) ''balance'' = JNum (Fin 0)"
proof -
  have loop: "tryEndpoints nullElementRt (network nullElementEnv)
                (apiEndpoints ''0xabc'' (etherscanApiKey nullElementEnv)) None
        = ((nullElementBody, Some endpoint1, None), [(endpoint1, tokentxHeaders)])"
    by (simp add: nullElementEnv_def endpoints0 tryEndpoints.simps tryEndpoint_def
          explorer_endpoint1 respond_def ok_def nullElementRt_def parseTable_def)
  have texts: "balanceText \<noteq> nullElementText"
    by (simp add: balanceText_def nullElementText_def)
  have parsed: "JSON_parse nullElementRt balanceText = Inr balanceBody"
    by (simp add: nullElementRt_def parseTable_def texts)
  have answer: "network nullElementEnv (balanceUrl endpoint1, balanceHeaders)
                  = Response 200 ''OK'' (BodyText balanceText)"
    by (simp add: nullElementEnv_def balanceUrl_endpoint1 explorer_balanceEndpoint1 respond_def)
  have fetched: "fetchBalance nullElementRt (network nullElementEnv) endpoint1
                   = Inr (Some (Fin (5 / 2)))"
    unfolding nullElementRt_def nullElementEnv_def env_at_simps
    by (rule balance_fetched) (simp add: parseTable_def texts)
  have "prop_of (json_body (fst (GET nullElementRt nullElementEnv req0))) ''balance'' = JNum (Fin 0)"
    by (simp add: nullElement_run failureReport_fields) (simp add: nullElementRt_def)
  with loop parsed answer fetched show ?thesis
    by (simp add: nullElement_run ok_def balanceBody_def)
qed

end
